theory Spec2Isabelle
  imports Complex_Main "HOL-Library.Word"
begin

section \<open>Values of the Go runtime used by the export engine\<close>

text \<open>
  Go strings are byte sequences, so \<open>len\<close> is \<^const>\<open>length\<close> on \<^typ>\<open>string\<close>.
  \<open>int64\<close> is a 64-bit word read as a signed number.
\<close>

type_synonym int64 = "64 word"

subsection \<open>Decimal rendering (\<open>%d\<close>)\<close>

definition digit_char :: "nat \<Rightarrow> char" where
  "digit_char d = ''0123456789'' ! (d mod 10)"

fun nat_digits :: "nat \<Rightarrow> string" where
  "nat_digits n =
     (if n < 10 then [digit_char n] else nat_digits (n div 10) @ [digit_char (n mod 10)])"

declare nat_digits.simps [simp del]

definition int_digits :: "int \<Rightarrow> string" where
  "int_digits i = (if i < 0 then ''-'' @ nat_digits (nat (- i)) else nat_digits (nat i))"

text \<open>\<open>appendInt(b, x, width)\<close> of package time: sign, then zero padding up to the width.\<close>

definition pad_int :: "nat \<Rightarrow> int \<Rightarrow> string" where
  "pad_int width x =
     (let ds = nat_digits (nat \<bar>x\<bar>)
      in (if x < 0 then ''-'' else '''') @ replicate (width - length ds) CHR ''0'' @ ds)"

subsection \<open>\<open>float64\<close>\<close>

text \<open>
  A \<open>float64\<close> is either a finite number, given by the rational it denotes, or one of
  the special values. Arithmetic on finite values rounds the exact result to the nearest
  number with a 53-bit significand, ties to even (\<open>fl64\<close>); the quotients and products
  the engine forms lie between \<open>2^-63\<close> and \<open>100\<close>, far from the subnormal and overflow
  ranges, which \<open>fl64\<close> therefore does not treat.
\<close>

datatype float64 = Finite rat | NegZero | PosInf | NegInf | NaN

fun bitlen :: "nat \<Rightarrow> nat" where
  "bitlen n = (if n = 0 then 0 else Suc (bitlen (n div 2)))"

declare bitlen.simps [simp del]

definition pow2 :: "int \<Rightarrow> rat" where
  "pow2 e = (if 0 \<le> e then 2 ^ nat e else 1 / 2 ^ nat (- e))"

text \<open>The binary exponent \<open>e\<close> of a positive rational: \<open>2^e \<le> x < 2^(e+1)\<close>.\<close>

definition exponent2 :: "rat \<Rightarrow> int" where
  "exponent2 x =
     (if 1 \<le> x then int (bitlen (nat \<lfloor>x\<rfloor>)) - 1
      else (let k = int (bitlen (nat \<lfloor>1 / x\<rfloor>))
            in if pow2 (1 - k) \<le> x then 1 - k else - k))"

definition round_half_even :: "rat \<Rightarrow> int" where
  "round_half_even m =
     (let f = \<lfloor>m\<rfloor>; r = m - of_int f
      in if r < 1 / 2 then f
         else if 1 / 2 < r then f + 1
         else if even f then f else f + 1)"

definition fl64 :: "rat \<Rightarrow> rat" where
  "fl64 x =
     (if x = 0 then 0
      else (let a = \<bar>x\<bar>; ulp = pow2 (exponent2 a - 52);
                r = of_int (round_half_even (a / ulp)) * ulp
            in if x < 0 then - r else r))"

definition f64_of_int :: "int \<Rightarrow> rat" where
  "f64_of_int n = fl64 (of_int n)"

definition f64_div :: "rat \<Rightarrow> rat \<Rightarrow> rat" where
  "f64_div a b = fl64 (a / b)"

definition f64_mul :: "rat \<Rightarrow> rat \<Rightarrow> rat" where
  "f64_mul a b = fl64 (a * b)"

text \<open>\<open>math.Round\<close>: the nearest integer, halves away from zero.\<close>

definition math_Round :: "rat \<Rightarrow> rat" where
  "math_Round x =
     (if x < 0 then - of_int \<lfloor>- x + 1 / 2\<rfloor> else of_int \<lfloor>x + 1 / 2\<rfloor>)"

text \<open>
  \<open>fmt.Sprintf("%.0f", x)\<close>: the exact decimal value rounded to an integer, halves to
  even, with the sign of \<open>x\<close> kept even when the digits are \<open>0\<close>.
\<close>

fun fmt_f0 :: "float64 \<Rightarrow> string" where
  "fmt_f0 (Finite x) =
     (if x < 0 then ''-'' else '''') @ nat_digits (nat (round_half_even \<bar>x\<bar>))"
| "fmt_f0 NegZero = ''-0''"
| "fmt_f0 PosInf = ''+Inf''"
| "fmt_f0 NegInf = ''-Inf''"
| "fmt_f0 NaN = ''NaN''"

subsection \<open>\<open>time.Time\<close>\<close>

text \<open>
  A time is given by the civil fields \<open>Format\<close> reads in the time's own location.
\<close>

record time =
  year :: int
  month :: nat
  day :: nat
  hour :: nat
  minute :: nat
  second :: nat

text \<open>\<open>t.Format("2006-01-02 15:04:05")\<close>\<close>

definition time_Format :: "time \<Rightarrow> string" where
  "time_Format t =
     pad_int 4 (year t) @ ''-'' @ pad_int 2 (int (month t)) @ ''-'' @ pad_int 2 (int (day t))
     @ '' '' @ pad_int 2 (int (hour t)) @ '':'' @ pad_int 2 (int (minute t))
     @ '':'' @ pad_int 2 (int (second t))"

section \<open>Job status and its two cache representations\<close>

text \<open>
  \<open>ExportStatus\<close>; the filter description (\<open>any\<close> in the source) is a type parameter.
  The \<open>Error\<close> field is the one \<open>runPaymentsExport\<close> assigns.
\<close>

record 'f ExportStatus =
  Key :: string
  Type :: string
  UserID :: int64
  Filters :: 'f
  Progress :: float64
  FileURL :: "string option"
  Error :: "string option"
  Created :: time

record ExportCacheItem =
  item_Key :: string
  item_Type :: string
  item_UserID :: int64
  item_Progress :: float64
  item_FileURL :: "string option"
  item_Error :: "string option"
  item_Created :: string

definition exportSetKey :: string where
  "exportSetKey = ''export_ids''"

text \<open>\<open>exportTTL\<close>, 20 minutes, in seconds.\<close>

definition exportTTL :: nat where
  "exportTTL = 20 * 60"

definition toCacheItem :: "'f ExportStatus \<Rightarrow> ExportCacheItem" where
  "toCacheItem st =
     \<lparr> item_Key = Key st, item_Type = Type st, item_UserID = UserID st,
       item_Progress = Progress st, item_FileURL = FileURL st, item_Error = Error st,
       item_Created = time_Format (Created st) \<rparr>"

definition phpStr :: "string \<Rightarrow> string" where
  "phpStr s = ''s:'' @ nat_digits (length s) @ '':\"'' @ s @ ''\";''"

definition phpSerializeExportItem :: "ExportCacheItem \<Rightarrow> string" where
  "phpSerializeExportItem item =
     ''a:7:{''
     @ phpStr ''key'' @ phpStr (item_Key item)
     @ phpStr ''type'' @ phpStr (item_Type item)
     @ phpStr ''user_id'' @ (''i:'' @ int_digits (sint (item_UserID item)) @ '';'')
     @ phpStr ''filters'' @ ''a:0:{}''
     @ phpStr ''progress'' @ (''d:'' @ fmt_f0 (item_Progress item) @ '';'')
     @ phpStr ''file_url''
     @ (case item_FileURL item of
          None \<Rightarrow> ''N;''
        | Some u \<Rightarrow> if u = '''' then ''N;'' else phpStr u)
     @ phpStr ''created_at'' @ phpStr (item_Created item)
     @ ''}''"

section \<open>The job engine\<close>

text \<open>
  Errors are values. \<open>ErrorString\<close> is \<open>errors.New\<close> or \<open>fmt.Errorf\<close> without a
  wrapped cause, \<open>Wrapped\<close> is \<open>fmt.Errorf("...: %w", err)\<close>, \<open>TooMany\<close> is the row
  ceiling error of a pre-flight check (export kind and limit), \<open>PutFailed\<close> is
  \<open>fmt.Errorf("put object %q failed after %d attempts: %w", key, attempts, lastErr)\<close>
  (key, attempt count and the wrapped last error), \<open>ContextErr\<close> is
  \<open>ctx.Err()\<close> of a cancelled context, and \<open>External\<close> is whatever a collaborator
  (database, cache, object store, operating system) reports.
\<close>

datatype error =
    ErrorString string
  | Wrapped string error
  | TooMany string int
  | PutFailed string int "error option"
  | ContextErr
  | External string

text \<open>
  The calls a job makes, in order: the two persistence helpers, the three notifications
  and the hand-over of the file to the storage client. The task never reads their
  results (\<open>_ = s.saveExportStatus(ctx, status)\<close>), except for the storage call.
\<close>

datatype 'f call =
    SaveExportStatus "'f ExportStatus"
  | SaveLaravelCache "'f ExportStatus"
  | NotifyExportProgress int64 string float64 string
  | NotifyExportComplete int64 string string string
  | NotifyExportFailed int64 string string
  | StoreFile string

text \<open>A column of a registry: header label and value extractor.\<close>

record ('r, 'c) column =
  Header :: string
  Value :: "'r \<Rightarrow> 'c"

text \<open>\<open>S3Client\<close> and \<open>StorageClient\<close> as seen by a job task.\<close>

record s3_client =
  s3_UploadXLSX :: "string \<Rightarrow> string \<Rightarrow> error + string"
  s3_GetTemporaryURL :: "string \<Rightarrow> nat \<Rightarrow> error + string"

record storage_client =
  st_Save :: "string \<Rightarrow> string \<Rightarrow> error + string"
  st_GetURL :: "string \<Rightarrow> string"

text \<open>
  A service with its collaborators: the repository (\<open>List\<close>, \<open>HasMoreThan\<close>), the
  clients (\<open>None\<close> is a nil pointer; the cache client is only looked at inside the
  persistence helpers), the filter description builder, the spreadsheet writer
  (headers and rows of cell values to a byte buffer), the column texts and extractors of
  the registry, the file name stamp \<open>time.Now().Format("20060102_150405")\<close>, and the
  text of an error value (\<open>%v\<close>).
\<close>

record ('flt, 'r, 'c, 'f) service =
  repo_List :: "'flt \<Rightarrow> error + 'r list"
  repo_HasMoreThan :: "int \<Rightarrow> 'flt \<Rightarrow> error + bool"
  s3 :: "s3_client option"
  storage :: "storage_client option"
  ws :: bool
  buildFiltersMap :: "'flt \<Rightarrow> string list \<Rightarrow> 'f"
  writeToBuffer :: "string list \<Rightarrow> 'c list list \<Rightarrow> error + string"
  registryColumn :: "string \<Rightarrow> ('r, 'c) column"
  fileStamp :: string
  errorText :: "error \<Rightarrow> string"

subsection \<open>Column registries\<close>

definition debtColumnKeys :: "string list" where
  "debtColumnKeys =
     [''debtor.full_name'', ''debtor.iin'', ''registry.number'', ''registry.date'',
      ''counterparty.name'', ''user.username'', ''user.departments'', ''status.name'',
      ''start_date'', ''end_date'', ''filial'', ''product_name'', ''amount_currency'',
      ''amount_actual_debt'', ''amount_purchased_loan'', ''init_amount_actual_debt'',
      ''amount_credit'', ''amount_main_debt'', ''amount_fine'', ''amount_accrual'',
      ''amount_government_duty'', ''amount_representation_expenses'',
      ''amount_notary_fees'', ''amount_postage'', ''transfer_decision'',
      ''presence_solidarity'', ''government_duty_paid'', ''government_duty_refund'',
      ''representation_expenses_paid'', ''late_due_date'', ''next_contact'',
      ''last_contact'', ''additional_data'', ''number'']"

definition userColumnKeys :: "string list" where
  "userColumnKeys =
     [''first_name'', ''last_name'', ''middle_name'', ''full_name'', ''username'',
      ''email'', ''phone'', ''departments'']"

definition actionColumnKeys :: "string list" where
  "actionColumnKeys =
     [''debt_id'', ''user_id'', ''debt.number'', ''debt.counterparty.name'',
      ''debtStatus.name'', ''debt_status_id'', ''actionType.name'', ''user.first_name'',
      ''user.last_name'', ''user.middle_name'', ''user.full_name'', ''user.departments'',
      ''debtor.first_name'', ''debtor.last_name'', ''debtor.middle_name'', ''payload'',
      ''payload.date_promised_payment'', ''payload.amount_promised_payment'',
      ''next_contact'', ''type'', ''comment'', ''created_at'', ''updated_at'',
      ''deleted_at'']"

definition paymentColumnKeys :: "string list" where
  "paymentColumnKeys =
     [''id'', ''debt_id'', ''user_id'', ''confirmed'', ''amount'',
      ''amount_after_subtraction'', ''amount_government_duty'',
      ''amount_representation_expenses'', ''amount_notary_fees'', ''amount_postage'',
      ''amount_accounts_receivable'', ''amount_main_debt'', ''amount_accrual'',
      ''amount_fine'', ''payment_date'', ''created_at'', ''updated_at'', ''deleted_at'']"

text \<open>A registry: the map from its keys to their columns.\<close>

definition registry :: "string list \<Rightarrow> (string \<Rightarrow> 'col) \<Rightarrow> string \<rightharpoonup> 'col" where
  "registry keys col k = (if k \<in> set keys then Some (col k) else None)"

text \<open>
  \<open>for _, key := range selected { col, ok := columns[key]; if !ok { continue };
  cols = append(cols, col) }\<close>
\<close>

fun resolveColumns :: "(string \<rightharpoonup> 'col) \<Rightarrow> string list \<Rightarrow> 'col list" where
  "resolveColumns reg [] = []"
| "resolveColumns reg (key # keys) =
     (case reg key of
        None \<Rightarrow> resolveColumns reg keys
      | Some col \<Rightarrow> col # resolveColumns reg keys)"

subsection \<open>Progress checkpoints\<close>

text \<open>
  \<open>raw := float64(i+1) / float64(total) * 100.0; progress := math.Round(raw);
  if progress >= 100 { progress = 95 }\<close>, with \<open>rowsDone = i+1\<close>.
\<close>

definition checkpointProgress :: "int \<Rightarrow> int \<Rightarrow> rat" where
  "checkpointProgress rowsDone totalRows =
     (let raw = f64_mul (f64_div (f64_of_int rowsDone) (f64_of_int totalRows)) 100;
          progress = math_Round raw
      in if 100 \<le> progress then 95 else progress)"

definition persist :: "'f ExportStatus \<Rightarrow> 'f call list" where
  "persist st = [SaveExportStatus st, SaveLaravelCache st]"

definition notifyProgress :: "bool \<Rightarrow> int64 \<Rightarrow> string \<Rightarrow> rat \<Rightarrow> string \<Rightarrow> 'f call list" where
  "notifyProgress has_ws userID exportID progress stage =
     (if has_ws then [NotifyExportProgress userID exportID (Finite progress) stage] else [])"

text \<open>
  The row loop of \<open>runDebtsExport\<close>, \<open>runUsersExport\<close> and \<open>runPaymentsExport\<close>
  (the three are the same text): \<open>i\<close> is the index of the row at the head of the list,
  the result is the calls made and the status as the loop leaves it.
\<close>

fun exportRows ::
  "bool \<Rightarrow> int64 \<Rightarrow> string \<Rightarrow> int \<Rightarrow> int \<Rightarrow> 'f ExportStatus \<Rightarrow> 'r list
     \<Rightarrow> 'f call list \<times> 'f ExportStatus" where
  "exportRows has_ws userID exportID totalRows i status [] = ([], status)"
| "exportRows has_ws userID exportID totalRows i status (d # ds) =
     (if (i + 1) mod 1000 = 0 \<or> i = totalRows - 1 then
        (let progress = checkpointProgress (i + 1) totalRows;
             status' = status\<lparr>Progress := Finite progress\<rparr>;
             (calls, final) = exportRows has_ws userID exportID totalRows (i + 1) status' ds
         in (persist status' @ notifyProgress has_ws userID exportID progress ''generating''
               @ calls, final))
      else exportRows has_ws userID exportID totalRows (i + 1) status ds)"

definition initialStatus ::
  "string \<Rightarrow> string \<Rightarrow> int64 \<Rightarrow> 'f \<Rightarrow> time \<Rightarrow> 'f ExportStatus" where
  "initialStatus exportID kind userID filters created =
     \<lparr> Key = exportID, Type = kind, UserID = userID, Filters = filters,
       Progress = Finite 0, FileURL = None, Error = None, Created = created \<rparr>"

text \<open>The 48 hours of the download link, in seconds.\<close>

definition urlTTL :: nat where
  "urlTTL = 48 * 3600"

text \<open>
  The upload phase of the debts, users and actions tasks (\<open>if s.s3 != nil { ... }\<close>):
  persist 95, announce the upload, upload, and only when both the upload and the link
  succeed persist 100 with the link.
\<close>

definition uploadPhaseS3 ::
  "('flt, 'r, 'c, 'f) service \<Rightarrow> int64 \<Rightarrow> string \<Rightarrow> 'f ExportStatus \<Rightarrow> string \<Rightarrow> string
     \<Rightarrow> 'f call list" where
  "uploadPhaseS3 s userID exportID status fileName data =
     (case s3 s of
        None \<Rightarrow> []
      | Some c \<Rightarrow>
          (let status1 = status\<lparr>Progress := Finite 95\<rparr>;
               before = persist status1 @ notifyProgress (ws s) userID exportID 95 ''uploading''
                          @ [StoreFile fileName]
           in case s3_UploadXLSX c fileName data of
                Inl err \<Rightarrow> before
              | Inr key \<Rightarrow>
                  (case s3_GetTemporaryURL c key urlTTL of
                     Inl err2 \<Rightarrow> before
                   | Inr url \<Rightarrow>
                       (let status2 = status1\<lparr>FileURL := Some url, Progress := Finite 100\<rparr>
                        in before @ persist status2
                             @ (if ws s
                                then [NotifyExportProgress userID exportID (Finite 100) ''ready'',
                                      NotifyExportComplete userID exportID url fileName]
                                else [])))))"

text \<open>The same phase of the payments task, on the local storage, with its failure path.\<close>

definition uploadPhaseStorage ::
  "('flt, 'r, 'c, 'f) service \<Rightarrow> int64 \<Rightarrow> string \<Rightarrow> 'f ExportStatus \<Rightarrow> string \<Rightarrow> string
     \<Rightarrow> 'f call list" where
  "uploadPhaseStorage s userID exportID status fileName data =
     (case storage s of
        None \<Rightarrow> []
      | Some c \<Rightarrow>
          (let status1 = status\<lparr>Progress := Finite 95\<rparr>;
               before = persist status1 @ notifyProgress (ws s) userID exportID 95 ''uploading''
                          @ [StoreFile fileName]
           in case st_Save c fileName data of
                Inl err \<Rightarrow>
                  (let errStr = ''save export failed: '' @ errorText s err;
                       status2 = status1\<lparr>Error := Some errStr, Progress := Finite 100\<rparr>
                   in before @ persist status2
                        @ (if ws s then [NotifyExportFailed userID exportID errStr] else []))
              | Inr savedName \<Rightarrow>
                  (let url = st_GetURL c savedName;
                       status2 = status1\<lparr>FileURL := Some url, Progress := Finite 100\<rparr>
                   in before @ persist status2
                        @ (if ws s
                           then [NotifyExportProgress userID exportID (Finite 100) ''ready'',
                                 NotifyExportComplete userID exportID url fileName]
                           else []))))"

subsection \<open>The four tasks\<close>

definition cellRows :: "('r, 'c) column list \<Rightarrow> 'r list \<Rightarrow> 'c list list" where
  "cellRows cols rows = map (\<lambda>d. map (\<lambda>col. Value col d) cols) rows"

definition runDebtsExport ::
  "('flt, 'r, 'c, 'f) service \<Rightarrow> string \<Rightarrow> string list \<Rightarrow> 'flt \<Rightarrow> int64 \<Rightarrow> time
     \<Rightarrow> 'f call list" where
  "runDebtsExport s exportID selected flt userID createdAt =
     (let status = initialStatus exportID ''debts'' userID (buildFiltersMap s flt selected)
                     createdAt
      in case repo_List s flt of
           Inl err \<Rightarrow> []
         | Inr debts \<Rightarrow>
             (let cols = resolveColumns (registry debtColumnKeys (registryColumn s)) selected
              in if length cols = 0 then []
                 else
                   (let totalRows = int (length debts);
                        (calls, status') =
                          (if totalRows = 0 then ([], status)
                           else exportRows (ws s) userID exportID totalRows 0 status debts)
                    in case writeToBuffer s (map Header cols) (cellRows cols debts) of
                         Inl err \<Rightarrow> calls
                       | Inr data \<Rightarrow>
                           calls @ uploadPhaseS3 s userID exportID status'
                                     (''debts_'' @ fileStamp s @ ''.xlsx'') data)))"

definition runUsersExport ::
  "('flt, 'r, 'c, 'f) service \<Rightarrow> string \<Rightarrow> string list \<Rightarrow> 'flt \<Rightarrow> int64 \<Rightarrow> time
     \<Rightarrow> 'f call list" where
  "runUsersExport s exportID selected flt userID createdAt =
     (let status = initialStatus exportID ''users'' userID (buildFiltersMap s flt selected)
                     createdAt
      in case repo_List s flt of
           Inl err \<Rightarrow> []
         | Inr users \<Rightarrow>
             (let cols = resolveColumns (registry userColumnKeys (registryColumn s)) selected
              in if length cols = 0 then []
                 else
                   (let totalRows = int (length users);
                        (calls, status') =
                          (if totalRows = 0 then ([], status)
                           else exportRows (ws s) userID exportID totalRows 0 status users)
                    in case writeToBuffer s (map Header cols) (cellRows cols users) of
                         Inl err \<Rightarrow> calls
                       | Inr data \<Rightarrow>
                           calls @ uploadPhaseS3 s userID exportID status'
                                     (''users_'' @ fileStamp s @ ''.xlsx'') data)))"

text \<open>The actions task writes its rows without checkpoints.\<close>

definition runActionsExport ::
  "('flt, 'r, 'c, 'f) service \<Rightarrow> string \<Rightarrow> string list \<Rightarrow> 'flt \<Rightarrow> int64 \<Rightarrow> time
     \<Rightarrow> 'f call list" where
  "runActionsExport s exportID selected flt userID createdAt =
     (let status = initialStatus exportID ''actions'' userID (buildFiltersMap s flt selected)
                     createdAt
      in case repo_List s flt of
           Inl err \<Rightarrow> []
         | Inr actions \<Rightarrow>
             (let cols = resolveColumns (registry actionColumnKeys (registryColumn s)) selected
              in if length cols = 0 then []
                 else
                   (case writeToBuffer s (map Header cols) (cellRows cols actions) of
                      Inl err \<Rightarrow> []
                    | Inr data \<Rightarrow>
                        uploadPhaseS3 s userID exportID status
                          (''actions_'' @ fileStamp s @ ''.xlsx'') data)))"

definition runPaymentsExport ::
  "('flt, 'r, 'c, 'f) service \<Rightarrow> string \<Rightarrow> string list \<Rightarrow> 'flt \<Rightarrow> int64 \<Rightarrow> time
     \<Rightarrow> 'f call list" where
  "runPaymentsExport s exportID selected flt userID createdAt =
     (let status = initialStatus exportID ''payments'' userID
                     (buildFiltersMap s flt selected) createdAt
      in case repo_List s flt of
           Inl err \<Rightarrow> []
         | Inr payments \<Rightarrow>
             (let cols = resolveColumns (registry paymentColumnKeys (registryColumn s)) selected
              in if length cols = 0 then []
                 else
                   (let totalRows = int (length payments);
                        (calls, status') =
                          (if 0 < totalRows
                           then exportRows (ws s) userID exportID totalRows 0 status payments
                           else ([], status))
                    in case writeToBuffer s (map Header cols) (cellRows cols payments) of
                         Inl err \<Rightarrow> calls
                       | Inr data \<Rightarrow>
                           calls @ uploadPhaseStorage s userID exportID status'
                                     (''payments_'' @ fileStamp s @ ''.xlsx'') data)))"

subsection \<open>Submission\<close>

text \<open>
  What a submission does besides returning: it draws a UUID, calls the persistence
  helpers and starts the task (\<open>go s.run...Export(...)\<close>). A task is recorded with the
  arguments it is started with.
\<close>

datatype kind = Debts | Users | Actions | Payments

record 'flt task =
  task_kind :: kind
  task_exportID :: string
  task_selected :: "string list"
  task_filter :: 'flt
  task_userID :: int64
  task_createdAt :: time

datatype ('flt, 'f) effect =
    NewUUID string
  | Call "'f call"
  | Go "'flt task"

definition maxActionsForExport :: int where
  "maxActionsForExport = 500000"

definition maxPaymentsForExport :: int where
  "maxPaymentsForExport = 500000"

text \<open>
  The part all four submissions share, after the defaults and the pre-flight check:
  \<open>uuid\<close> is what \<open>uuid.NewString()\<close> returns and \<open>now\<close> what \<open>time.Now()\<close> returns.
\<close>

definition createJob ::
  "('flt, 'r, 'c, 'f) service \<Rightarrow> kind \<Rightarrow> string \<Rightarrow> string \<Rightarrow> time \<Rightarrow> string list \<Rightarrow> 'flt
     \<Rightarrow> int64 \<Rightarrow> (error + string) \<times> ('flt, 'f) effect list" where
  "createJob s k kindName uuid now selected flt userID =
     (let exportID = ''exports:'' @ uuid;
          status = initialStatus exportID kindName userID (buildFiltersMap s flt selected) now
      in (Inr exportID,
          [NewUUID uuid, Call (SaveExportStatus status), Call (SaveLaravelCache status),
           Go \<lparr> task_kind = k, task_exportID = exportID, task_selected = selected,
                task_filter = flt, task_userID = userID, task_createdAt = now \<rparr>]))"

definition StartDebtsExport ::
  "('flt, 'r, 'c, 'f) service \<Rightarrow> string \<Rightarrow> time \<Rightarrow> string list \<Rightarrow> 'flt \<Rightarrow> int64
     \<Rightarrow> (error + string) \<times> ('flt, 'f) effect list" where
  "StartDebtsExport s uuid now selected flt userID =
     (let selected = (if length selected = 0
                      then [''number'', ''debtor.full_name'', ''amount_actual_debt'']
                      else selected)
      in createJob s Debts ''debts'' uuid now selected flt userID)"

definition StartUsersExport ::
  "('flt, 'r, 'c, 'f) service \<Rightarrow> string \<Rightarrow> time \<Rightarrow> string list \<Rightarrow> 'flt \<Rightarrow> int64
     \<Rightarrow> (error + string) \<times> ('flt, 'f) effect list" where
  "StartUsersExport s uuid now selected flt userID =
     (let selected = (if length selected = 0
                      then [''full_name'', ''username'', ''email'', ''departments'']
                      else selected)
      in createJob s Users ''users'' uuid now selected flt userID)"

definition StartActionsExport ::
  "('flt, 'r, 'c, 'f) service \<Rightarrow> string \<Rightarrow> time \<Rightarrow> string list \<Rightarrow> 'flt \<Rightarrow> int64
     \<Rightarrow> (error + string) \<times> ('flt, 'f) effect list" where
  "StartActionsExport s uuid now selected flt userID =
     (let selected = (if length selected = 0
                      then [''debt.number'', ''actionType.name'', ''user.full_name'',
                            ''comment'', ''created_at'']
                      else selected)
      in case repo_HasMoreThan s maxActionsForExport flt of
           Inl err \<Rightarrow> (Inl err, [])
         | Inr tooMany \<Rightarrow>
             if tooMany then (Inl (TooMany ''actions'' maxActionsForExport), [])
             else createJob s Actions ''actions'' uuid now selected flt userID)"

definition StartPaymentsExport ::
  "('flt, 'r, 'c, 'f) service \<Rightarrow> string \<Rightarrow> time \<Rightarrow> string list \<Rightarrow> 'flt \<Rightarrow> int64
     \<Rightarrow> (error + string) \<times> ('flt, 'f) effect list" where
  "StartPaymentsExport s uuid now selected flt userID =
     (let selected = (if length selected = 0
                      then [''payment_date'', ''id'', ''debt_id'', ''user_id'', ''confirmed'',
                            ''amount'', ''amount_after_subtraction'',
                            ''amount_government_duty'', ''amount_representation_expenses'',
                            ''amount_notary_fees'', ''amount_postage'',
                            ''amount_accounts_receivable'', ''amount_main_debt'',
                            ''amount_accrual'', ''amount_fine'', ''created_at'',
                            ''updated_at'', ''deleted_at'']
                      else selected)
      in case repo_HasMoreThan s maxPaymentsForExport flt of
           Inl err \<Rightarrow> (Inl err, [])
         | Inr tooMany \<Rightarrow>
             if tooMany then (Inl (TooMany ''payments'' maxPaymentsForExport), [])
             else createJob s Payments ''payments'' uuid now selected flt userID)"

text \<open>Starting a recorded task, and submitting a job of a kind.\<close>

definition runTask :: "('flt, 'r, 'c, 'f) service \<Rightarrow> 'flt task \<Rightarrow> 'f call list" where
  "runTask s t =
     (case task_kind t of
        Debts \<Rightarrow> runDebtsExport s (task_exportID t) (task_selected t) (task_filter t)
                   (task_userID t) (task_createdAt t)
      | Users \<Rightarrow> runUsersExport s (task_exportID t) (task_selected t) (task_filter t)
                   (task_userID t) (task_createdAt t)
      | Actions \<Rightarrow> runActionsExport s (task_exportID t) (task_selected t) (task_filter t)
                     (task_userID t) (task_createdAt t)
      | Payments \<Rightarrow> runPaymentsExport s (task_exportID t) (task_selected t) (task_filter t)
                      (task_userID t) (task_createdAt t))"

definition Submit ::
  "('flt, 'r, 'c, 'f) service \<Rightarrow> kind \<Rightarrow> string \<Rightarrow> time \<Rightarrow> string list \<Rightarrow> 'flt \<Rightarrow> int64
     \<Rightarrow> (error + string) \<times> ('flt, 'f) effect list" where
  "Submit s k =
     (case k of
        Debts \<Rightarrow> StartDebtsExport s
      | Users \<Rightarrow> StartUsersExport s
      | Actions \<Rightarrow> StartActionsExport s
      | Payments \<Rightarrow> StartPaymentsExport s)"

text \<open>
  The calls of a job over its lifetime: those of the submission, then those of every
  task the submission started.
\<close>

fun effectCalls :: "('flt, 'r, 'c, 'f) service \<Rightarrow> ('flt, 'f) effect \<Rightarrow> 'f call list" where
  "effectCalls s (NewUUID u) = []"
| "effectCalls s (Call c) = [c]"
| "effectCalls s (Go t) = runTask s t"

definition jobCalls ::
  "('flt, 'r, 'c, 'f) service \<Rightarrow> kind \<Rightarrow> string \<Rightarrow> time \<Rightarrow> string list \<Rightarrow> 'flt \<Rightarrow> int64
     \<Rightarrow> 'f call list" where
  "jobCalls s k uuid now selected flt userID =
     concat (map (effectCalls s) (snd (Submit s k uuid now selected flt userID)))"

text \<open>The statuses handed to the primary and to the legacy persistence helper.\<close>

fun savedStatus :: "'f call \<Rightarrow> 'f ExportStatus list" where
  "savedStatus (SaveExportStatus st) = [st]"
| "savedStatus c = []"

fun savedLegacy :: "'f call \<Rightarrow> 'f ExportStatus list" where
  "savedLegacy (SaveLaravelCache st) = [st]"
| "savedLegacy c = []"

definition persisted :: "'f call list \<Rightarrow> 'f ExportStatus list" where
  "persisted calls = concat (map savedStatus calls)"

definition persistedLegacy :: "'f call list \<Rightarrow> 'f ExportStatus list" where
  "persistedLegacy calls = concat (map savedLegacy calls)"

text \<open>
  The checkpoints in the words of the specification: the rows after which a checkpoint
  is due, counted from 1 and later than row \<open>i\<close>, are the multiples of 1000 and the
  last row; a checkpoint persists the status with the progress of that row and
  publishes it with the stage \<open>generating\<close>.
\<close>

definition checkpointRows :: "int \<Rightarrow> int \<Rightarrow> int list" where
  "checkpointRows i n = filter (\<lambda>j. j mod 1000 = 0 \<or> j = n) [i + 1..n]"

definition checkpointCalls ::
  "bool \<Rightarrow> int64 \<Rightarrow> string \<Rightarrow> 'f ExportStatus \<Rightarrow> int \<Rightarrow> int \<Rightarrow> 'f call list" where
  "checkpointCalls has_ws userID exportID status totalRows j =
     persist (status\<lparr>Progress := Finite (checkpointProgress j totalRows)\<rparr>)
     @ notifyProgress has_ws userID exportID (checkpointProgress j totalRows) ''generating''"




section \<open>The cache client and the persistence helpers\<close>

text \<open>
  \<open>RedisClient\<close>: every key is prefixed; whether the server accepts a command is
  the server's business (\<open>rc_ok\<close>), and what a \<open>GET\<close> finds is \<open>rc_get\<close>.
\<close>

datatype redis_cmd = SET string string nat | SADD string string

record redis_client =
  rc_prefix :: string
  rc_ok :: "redis_cmd \<Rightarrow> bool"
  rc_get :: "string \<Rightarrow> error + string"

definition withPrefix :: "redis_client \<Rightarrow> string \<Rightarrow> string" where
  "withPrefix c key = rc_prefix c @ key"

definition redis_Set ::
  "redis_client \<Rightarrow> string \<Rightarrow> string \<Rightarrow> nat \<Rightarrow> redis_cmd list \<times> error option" where
  "redis_Set c key v ttl =
     (let cmd = SET (withPrefix c key) v ttl
      in ([cmd], if rc_ok c cmd then None else Some (External ''redis'')))"

definition redis_SAdd ::
  "redis_client \<Rightarrow> string \<Rightarrow> string \<Rightarrow> redis_cmd list \<times> error option" where
  "redis_SAdd c key member =
     (let cmd = SADD (withPrefix c key) member
      in ([cmd], if rc_ok c cmd then None else Some (External ''redis'')))"

definition redis_Get :: "redis_client \<Rightarrow> string \<Rightarrow> error + string" where
  "redis_Get c key = rc_get c (withPrefix c key)"

text \<open>
  \<open>saveExportStatus\<close>; \<open>marshal\<close> is \<open>json.Marshal\<close>. The result is the commands sent
  and the error returned.
\<close>

definition saveExportStatus ::
  "redis_client option \<Rightarrow> ('f ExportStatus \<Rightarrow> error + string) \<Rightarrow> 'f ExportStatus
     \<Rightarrow> redis_cmd list \<times> error option" where
  "saveExportStatus redis marshal st =
     (case redis of
        None \<Rightarrow> ([], None)
      | Some c \<Rightarrow>
          (case marshal st of
             Inl err \<Rightarrow> ([], Some err)
           | Inr data \<Rightarrow>
               (case redis_Set c (Key st) data exportTTL of
                  (cmds, Some err) \<Rightarrow> (cmds, Some err)
                | (cmds, None) \<Rightarrow>
                    (let (cmds', err') = redis_SAdd c exportSetKey (Key st)
                     in (cmds @ cmds', err')))))"

definition saveLaravelCache ::
  "redis_client option \<Rightarrow> string \<Rightarrow> 'f ExportStatus \<Rightarrow> redis_cmd list \<times> error option" where
  "saveLaravelCache redis cachePrefix st =
     (case redis of
        None \<Rightarrow> ([], None)
      | Some c \<Rightarrow>
          (let cacheKey = cachePrefix @ Key st;
               item = toCacheItem st;
               serialized = phpSerializeExportItem item
           in redis_Set c cacheKey serialized exportTTL))"

section \<open>Reading a job status\<close>

text \<open>
  \<open>ExportService.GetExport\<close>; \<open>es_unmarshal\<close> is \<open>json.Unmarshal\<close> into an
  \<open>ExportStatus\<close> and \<open>es_humanize\<close> is \<open>humanizeRuAgo\<close> at the time of the call.
\<close>

record 'f ExportService =
  es_redis :: "redis_client option"
  es_unmarshal :: "string \<Rightarrow> error + 'f ExportStatus"
  es_humanize :: "time \<Rightarrow> string"

record 'f exportMap =
  em_key :: string
  em_type :: string
  em_user_id :: int64
  em_progress :: float64
  em_file_url :: "string option"
  em_filters :: 'f
  em_created_at :: string

definition GetExport :: "'f ExportService \<Rightarrow> string \<Rightarrow> int64 \<Rightarrow> error + 'f exportMap" where
  "GetExport s exportID userID =
     (case es_redis s of
        None \<Rightarrow> Inl (ErrorString ''redis client not configured'')
      | Some c \<Rightarrow>
          (case redis_Get c exportID of
             Inl err \<Rightarrow> Inl (ErrorString ''export not found'')
           | Inr data \<Rightarrow>
               (case es_unmarshal s data of
                  Inl err \<Rightarrow> Inl (Wrapped ''failed to parse export status'' err)
                | Inr status \<Rightarrow>
                    if UserID status \<noteq> userID then Inl (ErrorString ''export not found'')
                    else Inr \<lparr> em_key = Key status, em_type = Type status,
                               em_user_id = UserID status, em_progress = Progress status,
                               em_file_url = FileURL status, em_filters = Filters status,
                               em_created_at = es_humanize s (Created status) \<rparr>)))"

section \<open>The storage upload with retry\<close>

text \<open>
  What \<open>UploadXLSX\<close> meets while it runs: whether \<open>ctx.Err()\<close> is set when attempt
  \<open>k\<close> starts, what the \<open>k\<close>-th \<open>PutObject\<close> returns (\<open>None\<close> is success), and which
  case the \<open>select\<close> after a failed attempt \<open>k\<close> takes (\<open>True\<close>: \<open>ctx.Done()\<close>,
  \<open>False\<close>: the timer).
\<close>

record s3_env =
  raw_nil :: bool
  s3_prefix :: string
  ctxErrAt :: "nat \<Rightarrow> bool"
  putObject :: "nat \<Rightarrow> error option"
  doneDuring :: "nat \<Rightarrow> bool"

text \<open>What it does: the attempts made and the waits that ran to their end, in ms.\<close>

datatype s3_event = Put nat | Slept nat

definition uploadAttempts :: nat where
  "uploadAttempts = 3"

text \<open>
  \<open>for attempt := 1; attempt <= attempts; attempt++ { ... }\<close> followed by the final
  \<open>return\<close>; \<open>backoff\<close> is in milliseconds.
\<close>

function uploadLoop ::
  "s3_env \<Rightarrow> string \<Rightarrow> nat \<Rightarrow> nat \<Rightarrow> error option \<Rightarrow> (error + string) \<times> s3_event list" where
  "uploadLoop e key attempt backoff lastErr =
     (if attempt \<le> uploadAttempts then
        (if ctxErrAt e attempt then (Inl ContextErr, [])
         else
           (case putObject e attempt of
              Some err \<Rightarrow>
                (if attempt < uploadAttempts then
                   (if doneDuring e attempt then (Inl ContextErr, [Put attempt])
                    else
                      (let (r, evs) = uploadLoop e key (attempt + 1) (backoff * 2) (Some err)
                       in (r, Put attempt # Slept backoff # evs)))
                 else
                   (let (r, evs) = uploadLoop e key (attempt + 1) backoff (Some err)
                    in (r, Put attempt # evs)))
            | None \<Rightarrow> (Inr key, [Put attempt])))
      else (Inl (PutFailed key (int uploadAttempts) lastErr), []))"
  by pat_completeness auto
termination
  by (relation "measure (\<lambda>(e, key, attempt, backoff, lastErr). Suc uploadAttempts - attempt)")
     auto

declare uploadLoop.simps [simp del]

definition UploadXLSX :: "s3_env \<Rightarrow> string \<Rightarrow> string \<Rightarrow> (error + string) \<times> s3_event list" where
  "UploadXLSX e fileName data =
     (if raw_nil e then (Inl (ErrorString ''s3 client is nil''), [])
      else uploadLoop e (s3_prefix e @ fileName) 1 500 None)"

definition putCount :: "s3_event list \<Rightarrow> nat" where
  "putCount evs = length (filter (\<lambda>ev. case ev of Put k \<Rightarrow> True | Slept d \<Rightarrow> False) evs)"

section \<open>The local storage\<close>

text \<open>\<open>filepath.Base\<close>, \<open>filepath.Clean\<close> and \<open>filepath.Join\<close> with \<open>/\<close> as separator.\<close>

definition isPathSeparator :: "char \<Rightarrow> bool" where
  "isPathSeparator c = (c = CHR ''/'')"

definition filepath_Base :: "string \<Rightarrow> string" where
  "filepath_Base path =
     (if path = [] then ''.''
      else (let stripped = rev (dropWhile isPathSeparator (rev path));
                element = rev (takeWhile (\<lambda>c. \<not> isPathSeparator c) (rev stripped))
            in if element = [] then ''/'' else element))"

fun splitPath :: "string \<Rightarrow> string list" where
  "splitPath [] = [[]]"
| "splitPath (c # cs) =
     (if isPathSeparator c then [] # splitPath cs
      else (case splitPath cs of e # es \<Rightarrow> (c # e) # es | [] \<Rightarrow> [[c]]))"

text \<open>The elements kept so far are held last first.\<close>

fun cleanElements :: "bool \<Rightarrow> string list \<Rightarrow> string list \<Rightarrow> string list" where
  "cleanElements rooted kept [] = rev kept"
| "cleanElements rooted kept (e # es) =
     (if e = [] \<or> e = ''.'' then cleanElements rooted kept es
      else if e = ''..'' then
        (case kept of
           k # ks \<Rightarrow>
             if k = ''..'' then cleanElements rooted (e # kept) es
             else cleanElements rooted ks es
         | [] \<Rightarrow>
             if rooted then cleanElements rooted kept es
             else cleanElements rooted (e # kept) es)
      else cleanElements rooted (e # kept) es)"

fun joinPath :: "string list \<Rightarrow> string" where
  "joinPath [] = []"
| "joinPath [e] = e"
| "joinPath (e # es) = e @ ''/'' @ joinPath es"

definition filepath_Clean :: "string \<Rightarrow> string" where
  "filepath_Clean path =
     (if path = [] then ''.''
      else (let rooted = isPathSeparator (hd path);
                out = (if rooted then ''/'' else [])
                      @ joinPath (cleanElements rooted [] (splitPath path))
            in if out = [] then ''.'' else out))"

definition filepath_Join :: "string list \<Rightarrow> string" where
  "filepath_Join elems =
     (let nonempty = filter (\<lambda>e. e \<noteq> []) elems
      in if nonempty = [] then [] else filepath_Clean (joinPath nonempty))"

text \<open>\<open>hex.EncodeToString\<close>\<close>

definition hexDigit :: "nat \<Rightarrow> char" where
  "hexDigit d = ''0123456789abcdef'' ! (d mod 16)"

definition hex_EncodeToString :: "8 word list \<Rightarrow> string" where
  "hex_EncodeToString bs = concat (map (\<lambda>b. [hexDigit (unat b div 16), hexDigit (unat b mod 16)]) bs)"

text \<open>
  What \<open>Save\<close> meets: the outcome of \<open>rand.Read\<close> on a buffer of the given size, of
  \<open>os.WriteFile\<close> and of \<open>os.Rename\<close>; and what it does to the file system.
\<close>

record storage_env =
  BaseDir :: string
  randRead :: "nat \<Rightarrow> error + 8 word list"
  writeFile :: "string \<Rightarrow> string \<Rightarrow> error option"
  rename :: "string \<Rightarrow> string \<Rightarrow> error option"

datatype fs_op = WriteFile string string | Rename string string | Remove string

definition Save :: "storage_env \<Rightarrow> string \<Rightarrow> string \<Rightarrow> (error + string) \<times> fs_op list" where
  "Save s fileName data =
     (let fileName = filepath_Base fileName
      in case randRead s 8 of
           Inl err \<Rightarrow> (Inl (Wrapped ''failed to generate file name'' err), [])
         | Inr randBytes \<Rightarrow>
             (let unique = hex_EncodeToString randBytes;
                  final = unique @ ''_'' @ fileName;
                  path = filepath_Join [BaseDir s, final];
                  tmp = path @ ''.tmp''
              in case writeFile s tmp data of
                   Some err \<Rightarrow> (Inl (Wrapped ''failed to write file'' err), [WriteFile tmp data])
                 | None \<Rightarrow>
                     (case rename s tmp path of
                        Some err \<Rightarrow>
                          (Inl (Wrapped ''failed to finalize file'' err),
                           [WriteFile tmp data, Rename tmp path, Remove tmp])
                      | None \<Rightarrow> (Inr final, [WriteFile tmp data, Rename tmp path]))))"

section \<open>The notification hub\<close>

text \<open>
  A buffered channel: its queue, its capacity and whether it was closed. A connection is
  known by its address; the registry maps a user to the addresses registered for that
  user (the keys of the inner Go map, in the order the \<open>range\<close> loop visits them), and
  \<open>sendq\<close> gives the \<open>send\<close> channel of the connection at an address.
\<close>

record 'm chan =
  buf :: "'m list"
  cap :: nat
  closed :: bool

record message =
  m_UserID :: int64
  m_Type :: string
  m_Channel :: string
  m_Data :: string

record connection =
  conn_addr :: nat
  conn_userID :: int64

record hub =
  connections :: "int64 \<rightharpoonup> nat list"
  sendq :: "nat \<Rightarrow> message chan"
  broadcast :: "message chan"

datatype panic = SendOnClosedChannel | CloseOfClosedChannel

text \<open>
  \<open>select { case ch <- m: ... default: ... }\<close>: the send proceeds when the queue has
  room, and panics on a closed channel; otherwise the default case runs.
\<close>

datatype 'm try_send = Sent "'m chan" | WouldBlock | SendPanics

definition trySend :: "'m chan \<Rightarrow> 'm \<Rightarrow> 'm try_send" where
  "trySend ch m =
     (if closed ch then SendPanics
      else if length (buf ch) < cap ch then Sent (ch\<lparr>buf := buf ch @ [m]\<rparr>)
      else WouldBlock)"

definition deleteConn :: "(int64 \<rightharpoonup> nat list) \<Rightarrow> int64 \<Rightarrow> nat \<Rightarrow> (int64 \<rightharpoonup> nat list)" where
  "deleteConn reg userID c =
     (case reg userID of
        None \<Rightarrow> reg
      | Some cs \<Rightarrow> reg(userID \<mapsto> removeAll c cs))"

text \<open>
  \<open>for conn := range connections { select { case conn.send <- message: default:
  close(conn.send); delete(connections, conn) } }\<close>
\<close>

fun broadcastLoop :: "message \<Rightarrow> nat list \<Rightarrow> hub \<Rightarrow> panic + hub" where
  "broadcastLoop message [] h = Inr h"
| "broadcastLoop message (conn # conns) h =
     (case trySend (sendq h conn) message of
        SendPanics \<Rightarrow> Inl SendOnClosedChannel
      | Sent q \<Rightarrow> broadcastLoop message conns (h\<lparr>sendq := (sendq h)(conn := q)\<rparr>)
      | WouldBlock \<Rightarrow>
          broadcastLoop message conns
            (h\<lparr>sendq := (sendq h)(conn := (sendq h conn)\<lparr>closed := True\<rparr>),
               connections := deleteConn (connections h) (m_UserID message) conn\<rparr>))"

text \<open>The three cases of the control loop (\<open>Hub.Run\<close>) that change the registry.\<close>

definition handleRegister :: "hub \<Rightarrow> connection \<Rightarrow> hub" where
  "handleRegister h conn =
     (let cs = (case connections h (conn_userID conn) of None \<Rightarrow> [] | Some cs \<Rightarrow> cs)
      in h\<lparr>connections := (connections h)(conn_userID conn \<mapsto>
              (if conn_addr conn \<in> set cs then cs else cs @ [conn_addr conn]))\<rparr>)"

definition handleUnregister :: "hub \<Rightarrow> connection \<Rightarrow> panic + hub" where
  "handleUnregister h conn =
     (case connections h (conn_userID conn) of
        None \<Rightarrow> Inr h
      | Some cs \<Rightarrow>
          if conn_addr conn \<in> set cs then
            (if closed (sendq h (conn_addr conn)) then Inl CloseOfClosedChannel
             else
               (let cs' = removeAll (conn_addr conn) cs;
                    q = (sendq h (conn_addr conn))\<lparr>closed := True\<rparr>
                in Inr (h\<lparr>sendq := (sendq h)(conn_addr conn := q),
                          connections :=
                            (if length cs' = 0 then (connections h)(conn_userID conn := None)
                             else (connections h)(conn_userID conn \<mapsto> cs'))\<rparr>)))
          else Inr h)"

definition handleBroadcast :: "hub \<Rightarrow> message \<Rightarrow> panic + hub" where
  "handleBroadcast h message =
     (case connections h (m_UserID message) of
        None \<Rightarrow> Inr h
      | Some conns \<Rightarrow> broadcastLoop message conns h)"

text \<open>
  \<open>Hub.Broadcast\<close>: \<open>message.UserID = userID; select { case h.broadcast <- message:
  default: log.Printf(...) }\<close>. It returns nothing; the result is the hub afterwards.
\<close>

definition Broadcast :: "hub \<Rightarrow> int64 \<Rightarrow> message \<Rightarrow> panic + hub" where
  "Broadcast h userID message =
     (let message = message\<lparr>m_UserID := userID\<rparr>
      in case trySend (broadcast h) message of
           SendPanics \<Rightarrow> Inl SendOnClosedChannel
         | Sent q \<Rightarrow> Inr (h\<lparr>broadcast := q\<rparr>)
         | WouldBlock \<Rightarrow> Inr h)"

section \<open>Predicates and sample inputs used in the statements\<close>

text \<open>
  The invariant of the data model: progress is 100 exactly when the artifact URL or the
  error message is set.
\<close>

definition progressInvariant :: "'f ExportStatus \<Rightarrow> bool" where
  "progressInvariant st =
     ((Progress st = Finite 100) = (FileURL st \<noteq> None \<or> Error st \<noteq> None))"

definition callInvariant :: "'f call \<Rightarrow> bool" where
  "callInvariant c = (\<forall>st \<in> set (savedStatus c) \<union> set (savedLegacy c). progressInvariant st)"



text \<open>The progress values a list of calls persists, in order.\<close>

fun finiteValue :: "float64 \<Rightarrow> rat list" where
  "finiteValue (Finite x) = [x]"
| "finiteValue v = []"

definition progressValues :: "'f call list \<Rightarrow> rat list" where
  "progressValues calls = concat (map (\<lambda>st. finiteValue (Progress st)) (persisted calls))"

text \<open>
  A service over a table of \<open>n\<close> rows whose collaborators all succeed: the repository
  returns the \<open>n\<close> rows and counts them, the object store and the local storage accept
  the file, and a hub is attached.
\<close>

definition demoTime :: time where
  "demoTime = \<lparr> year = 2025, month = 11, day = 25, hour = 14, minute = 2, second = 6 \<rparr>"

definition demoService :: "nat \<Rightarrow> (unit, unit, unit, unit) service" where
  "demoService n =
     \<lparr> repo_List = (\<lambda>flt. Inr (replicate n ())),
       repo_HasMoreThan = (\<lambda>limit flt. Inr (limit < int n)),
       s3 = Some \<lparr> s3_UploadXLSX = (\<lambda>fileName data. Inr (''exports/'' @ fileName)),
                   s3_GetTemporaryURL = (\<lambda>key ttl. Inr (''https://s3.test/'' @ key)) \<rparr>,
       storage = Some \<lparr> st_Save = (\<lambda>fileName data. Inr (''d94b8b43a916d58b_'' @ fileName)),
                        st_GetURL = (\<lambda>name. ''/files/'' @ name) \<rparr>,
       ws = True,
       buildFiltersMap = (\<lambda>flt fields. ()),
       writeToBuffer = (\<lambda>headers cells. Inr ''xlsx''),
       registryColumn = (\<lambda>key. \<lparr> Header = key, Value = (\<lambda>row. ()) \<rparr>),
       fileStamp = ''20251125_140206'',
       errorText = (\<lambda>err. ''error'') \<rparr>"

text \<open>
  A cache holding the given keys, and a status service over it that decodes one text,
  the encoding of \<open>demoStatus\<close>, a job of user 7.
\<close>

definition demoStatus :: "unit ExportStatus" where
  "demoStatus = initialStatus ''exports:1'' ''debts'' 7 () demoTime"

definition demoRedis :: "(string \<rightharpoonup> string) \<Rightarrow> redis_client" where
  "demoRedis kv =
     \<lparr> rc_prefix = ''app:'',
       rc_ok = (\<lambda>cmd. True),
       rc_get = (\<lambda>key. case kv key of
                          None \<Rightarrow> Inl (External ''redis: nil'')
                        | Some v \<Rightarrow> Inr v) \<rparr>"

definition demoExportService :: "(string \<rightharpoonup> string) \<Rightarrow> unit ExportService" where
  "demoExportService kv =
     \<lparr> es_redis = Some (demoRedis kv),
       es_unmarshal = (\<lambda>data. if data = ''{status of exports:1}'' then Inr demoStatus
                               else Inl (External ''invalid character'')),
       es_humanize = (\<lambda>t. ''now'') \<rparr>"

text \<open>
  An object store with the prefix \<open>exports/\<close> whose attempts, cancellations before an
  attempt and cancellations during a wait are the given ones.
\<close>

definition demoS3 :: "(nat \<Rightarrow> error option) \<Rightarrow> (nat \<Rightarrow> bool) \<Rightarrow> (nat \<Rightarrow> bool) \<Rightarrow> s3_env" where
  "demoS3 puts errAt doneAt =
     \<lparr> raw_nil = False, s3_prefix = ''exports/'', ctxErrAt = errAt, putObject = puts,
       doneDuring = doneAt \<rparr>"

section \<open>Evaluating the floating point model\<close>

text \<open>Floors of rational numerals, and the values the examples need, step by step.\<close>

lemma floor_rat_numeral_div:
  "\<lfloor>numeral a / numeral b :: rat\<rfloor> = numeral a div numeral b"
  by (metis floor_divide_of_int_eq of_int_numeral)

lemma floor_rat_one_div: "\<lfloor>1 / numeral b :: rat\<rfloor> = 1 div numeral b"
  by (metis floor_divide_of_int_eq of_int_numeral of_int_1)

lemma fl64_val_1: "fl64 (1000) = 1000"
proof -
  have e: "exponent2 (1000) = 9"
    by (simp add: exponent2_def bitlen.simps pow2_def floor_rat_numeral_div floor_rat_one_div)
  have u: "pow2 (- 43) = 1 / 8796093022208"
    by (simp add: pow2_def)
  have m: "round_half_even (8796093022208000) = 8796093022208000"
    by (simp add: round_half_even_def Let_def floor_rat_numeral_div)
  show ?thesis
    unfolding fl64_def Let_def by (simp add: e u m)
qed









lemma fl64_val_8: "fl64 (1) = 1"
proof -
  have e: "exponent2 (1) = 0"
    by (simp add: exponent2_def bitlen.simps pow2_def floor_rat_numeral_div floor_rat_one_div)
  have u: "pow2 (- 52) = 1 / 4503599627370496"
    by (simp add: pow2_def)
  have m: "round_half_even (4503599627370496) = 4503599627370496"
    by (simp add: round_half_even_def Let_def floor_rat_numeral_div)
  show ?thesis
    unfolding fl64_def Let_def by (simp add: e u m)
qed

lemma fl64_val_9: "fl64 (100) = 100"
proof -
  have e: "exponent2 (100) = 6"
    by (simp add: exponent2_def bitlen.simps pow2_def floor_rat_numeral_div floor_rat_one_div)
  have u: "pow2 (- 46) = 1 / 70368744177664"
    by (simp add: pow2_def)
  have m: "round_half_even (7036874417766400) = 7036874417766400"
    by (simp add: round_half_even_def Let_def floor_rat_numeral_div)
  show ?thesis
    unfolding fl64_def Let_def by (simp add: e u m)
qed


lemma fl64_val_10: "fl64 (1010) = 1010"
proof -
  have e: "exponent2 (1010) = 9"
    by (simp add: exponent2_def bitlen.simps pow2_def floor_rat_numeral_div floor_rat_one_div)
  have u: "pow2 (- 43) = 1 / 8796093022208"
    by (simp add: pow2_def)
  have m: "round_half_even (8884053952430080) = 8884053952430080"
    by (simp add: round_half_even_def Let_def floor_rat_numeral_div)
  show ?thesis
    unfolding fl64_def Let_def by (simp add: e u m)
qed

lemma fl64_val_11: "fl64 (100 / 101) = 1114752383012499 / 1125899906842624"
proof -
  have e: "exponent2 (100 / 101) = - 1"
    by (simp add: exponent2_def bitlen.simps pow2_def floor_rat_numeral_div floor_rat_one_div)
  have u: "pow2 (- 53) = 1 / 9007199254740992"
    by (simp add: pow2_def)
  have m: "round_half_even (900719925474099200 / 101) = 8918019064099992"
    by (simp add: round_half_even_def Let_def floor_rat_numeral_div)
  show ?thesis
    unfolding fl64_def Let_def by (simp add: e u m)
qed

lemma fl64_val_12: "fl64 (27868809575312475 / 281474976710656) = 6967202393828119 / 70368744177664"
proof -
  have e: "exponent2 (27868809575312475 / 281474976710656) = 6"
    by (simp add: exponent2_def bitlen.simps pow2_def floor_rat_numeral_div floor_rat_one_div)
  have u: "pow2 (- 46) = 1 / 70368744177664"
    by (simp add: pow2_def)
  have m: "round_half_even (27868809575312475 / 4) = 6967202393828119"
    by (simp add: round_half_even_def Let_def floor_rat_numeral_div)
  show ?thesis
    unfolding fl64_def Let_def by (simp add: e u m)
qed

lemma checkpointProgress_1000_1010: "checkpointProgress 1000 1010 = 99"
  by (simp add: checkpointProgress_def f64_mul_def f64_div_def f64_of_int_def math_Round_def
      fl64_val_1 fl64_val_10 fl64_val_11 fl64_val_12 Let_def floor_rat_numeral_div)

lemma checkpointProgress_1010_1010: "checkpointProgress 1010 1010 = 95"
  by (simp add: checkpointProgress_def f64_mul_def f64_div_def f64_of_int_def math_Round_def
      fl64_val_10 fl64_val_10 fl64_val_8 fl64_val_9 Let_def floor_rat_numeral_div)











subsection \<open>The rounding error of a checkpoint value\<close>






















lemma fl64_val_18: "fl64 (8000) = 8000"
proof -
  have e: "exponent2 (8000) = 12"
    by (simp add: exponent2_def bitlen.simps pow2_def floor_rat_numeral_div floor_rat_one_div)
  have u: "pow2 (- 40) = 1 / 1099511627776"
    by (simp add: pow2_def)
  have m: "round_half_even (8796093022208000) = 8796093022208000"
    by (simp add: round_half_even_def Let_def floor_rat_numeral_div)
  show ?thesis
    unfolding fl64_def Let_def by (simp add: e u m)
qed

lemma fl64_val_19: "fl64 (1 / 8) = 1 / 8"
proof -
  have e: "exponent2 (1 / 8) = - 3"
    by (simp add: exponent2_def bitlen.simps pow2_def floor_rat_numeral_div floor_rat_one_div)
  have u: "pow2 (- 55) = 1 / 36028797018963968"
    by (simp add: pow2_def)
  have m: "round_half_even (4503599627370496) = 4503599627370496"
    by (simp add: round_half_even_def Let_def floor_rat_numeral_div)
  show ?thesis
    unfolding fl64_def Let_def by (simp add: e u m)
qed

lemma fl64_val_20: "fl64 (25 / 2) = 25 / 2"
proof -
  have e: "exponent2 (25 / 2) = 3"
    by (simp add: exponent2_def bitlen.simps pow2_def floor_rat_numeral_div floor_rat_one_div)
  have u: "pow2 (- 49) = 1 / 562949953421312"
    by (simp add: pow2_def)
  have m: "round_half_even (7036874417766400) = 7036874417766400"
    by (simp add: round_half_even_def Let_def floor_rat_numeral_div)
  show ?thesis
    unfolding fl64_def Let_def by (simp add: e u m)
qed

lemma checkpointProgress_1000_8000: "checkpointProgress 1000 8000 = 13"
  by (simp add: checkpointProgress_def f64_mul_def f64_div_def f64_of_int_def math_Round_def
      fl64_val_1 fl64_val_18 fl64_val_19 fl64_val_20 Let_def floor_rat_numeral_div)





section \<open>The row loop and the four tasks\<close>

lemma checkpointCalls_Progress:
  "checkpointCalls has_ws userID exportID (status\<lparr>Progress := p\<rparr>) n j
     = checkpointCalls has_ws userID exportID status n j"
  by (simp add: checkpointCalls_def)

lemma checkpointRows_step:
  assumes le: "i + 1 \<le> n"
  shows "checkpointRows i n =
     (if (i + 1) mod 1000 = 0 \<or> i = n - 1 then [i + 1] else []) @ checkpointRows (i + 1) n"
proof -
  have up: "[i + 1..n] = (i + 1) # [i + 1 + 1..n]"
    using le by (simp add: upto_rec1)
  have eq: "(i + 1 = n) = (i = n - 1)" by auto
  show ?thesis unfolding checkpointRows_def up by (simp add: eq)
qed

lemma exportRows_calls:
  "i + int (length rows) = n \<Longrightarrow>
   fst (exportRows has_ws userID exportID n i status rows) =
     concat (map (checkpointCalls has_ws userID exportID status n) (checkpointRows i n))"
proof (induction rows arbitrary: i status)
  case Nil
  then show ?case by (simp add: checkpointRows_def)
next
  case (Cons d ds)
  have len: "(i + 1) + int (length ds) = n" using Cons.prems by simp
  have le: "i + 1 \<le> n" using Cons.prems by simp
  note IH = Cons.IH [OF len]
  show ?case
  proof (cases "(i + 1) mod 1000 = 0 \<or> i = n - 1")
    case True
    have "fst (exportRows has_ws userID exportID n i status (d # ds)) =
            checkpointCalls has_ws userID exportID status n (i + 1)
            @ fst (exportRows has_ws userID exportID n (i + 1)
                     (status\<lparr>Progress := Finite (checkpointProgress (i + 1) n)\<rparr>) ds)"
      using True by (simp add: split_beta Let_def checkpointCalls_def)
    also have "\<dots> = checkpointCalls has_ws userID exportID status n (i + 1)
            @ concat (map (checkpointCalls has_ws userID exportID status n)
                        (checkpointRows (i + 1) n))"
      by (simp only: IH checkpointCalls_Progress)
    finally show ?thesis
      using True by (simp only: checkpointRows_step [OF le] if_True append_Cons append_Nil
          list.map concat.simps)
  next
    case False
    have "fst (exportRows has_ws userID exportID n i status (d # ds)) =
            fst (exportRows has_ws userID exportID n (i + 1) status ds)"
      using False by simp
    then show ?thesis
      using False by (simp only: IH checkpointRows_step [OF le] if_False append_Nil)
  qed
qed

lemma exportRows_status:
  "(snd (exportRows has_ws userID exportID n i status rows))\<lparr>Progress := q\<rparr>
     = status\<lparr>Progress := q\<rparr>"
  by (induction rows arbitrary: i status) (simp_all add: split_beta Let_def)

lemma uploadPhaseS3_Progress:
  "(status'::'f ExportStatus)\<lparr>Progress := Finite 95\<rparr> = status\<lparr>Progress := Finite 95\<rparr> \<Longrightarrow>
   uploadPhaseS3 s userID exportID status' fileName data
     = uploadPhaseS3 s userID exportID status fileName data"
  by (simp only: uploadPhaseS3_def Let_def)

lemma uploadPhaseStorage_Progress:
  "(status'::'f ExportStatus)\<lparr>Progress := Finite 95\<rparr> = status\<lparr>Progress := Finite 95\<rparr> \<Longrightarrow>
   uploadPhaseStorage s userID exportID status' fileName data
     = uploadPhaseStorage s userID exportID status fileName data"
  by (simp only: uploadPhaseStorage_def Let_def)

lemma checkpointProgress_lt_100: "checkpointProgress j n < 100"
  by (simp add: checkpointProgress_def Let_def)

lemma checkpointRows_empty: "checkpointRows 0 0 = []"
  by (simp add: checkpointRows_def)

lemma runDebtsExport_rows:
  assumes list: "repo_List s flt = Inr rows"
    and cols: "resolveColumns (registry debtColumnKeys (registryColumn s)) selected = cols"
    and cne: "cols \<noteq> []"
    and st: "status = initialStatus exportID ''debts'' userID (buildFiltersMap s flt selected) createdAt"
  shows "runDebtsExport s exportID selected flt userID createdAt =
           concat (map (checkpointCalls (ws s) userID exportID status (int (length rows)))
                     (checkpointRows 0 (int (length rows))))
           @ (case writeToBuffer s (map Header cols) (cellRows cols rows) of
                Inl err \<Rightarrow> []
              | Inr data \<Rightarrow>
                  uploadPhaseS3 s userID exportID status
                    (''debts_'' @ fileStamp s @ ''.xlsx'') data)"
proof (cases "rows = []")
  case True
  show ?thesis
    unfolding runDebtsExport_def
    using list cols cne True
    by (simp add: Let_def st [symmetric] checkpointRows_empty split: sum.splits)
next
  case False
  obtain calls status' where ex:
    "exportRows (ws s) userID exportID (int (length rows)) 0 status rows = (calls, status')"
    by (cases "exportRows (ws s) userID exportID (int (length rows)) 0 status rows")
  have c: "calls = concat (map (checkpointCalls (ws s) userID exportID status (int (length rows)))
                     (checkpointRows 0 (int (length rows))))"
    using exportRows_calls [where i = 0 and rows = rows and n = "int (length rows)"
        and has_ws = "ws s" and userID = userID and exportID = exportID and status = status] ex
    by simp
  have s': "status'\<lparr>Progress := Finite 95\<rparr> = status\<lparr>Progress := Finite 95\<rparr>"
    using exportRows_status [where has_ws = "ws s" and userID = userID and exportID = exportID
        and n = "int (length rows)" and i = 0 and status = status and rows = rows
        and q = "Finite 95"] ex
    by simp
  have pos: "int (length rows) \<noteq> 0" using False by simp
  show ?thesis
    unfolding runDebtsExport_def
    using list cols cne pos ex
    by (simp add: Let_def st [symmetric] c [symmetric] uploadPhaseS3_Progress [OF s']
        split: sum.splits)
qed

lemma runUsersExport_rows:
  assumes list: "repo_List s flt = Inr rows"
    and cols: "resolveColumns (registry userColumnKeys (registryColumn s)) selected = cols"
    and cne: "cols \<noteq> []"
    and st: "status = initialStatus exportID ''users'' userID (buildFiltersMap s flt selected) createdAt"
  shows "runUsersExport s exportID selected flt userID createdAt =
           concat (map (checkpointCalls (ws s) userID exportID status (int (length rows)))
                     (checkpointRows 0 (int (length rows))))
           @ (case writeToBuffer s (map Header cols) (cellRows cols rows) of
                Inl err \<Rightarrow> []
              | Inr data \<Rightarrow>
                  uploadPhaseS3 s userID exportID status
                    (''users_'' @ fileStamp s @ ''.xlsx'') data)"
proof (cases "rows = []")
  case True
  show ?thesis
    unfolding runUsersExport_def
    using list cols cne True
    by (simp add: Let_def st [symmetric] checkpointRows_empty split: sum.splits)
next
  case False
  obtain calls status' where ex:
    "exportRows (ws s) userID exportID (int (length rows)) 0 status rows = (calls, status')"
    by (cases "exportRows (ws s) userID exportID (int (length rows)) 0 status rows")
  have c: "calls = concat (map (checkpointCalls (ws s) userID exportID status (int (length rows)))
                     (checkpointRows 0 (int (length rows))))"
    using exportRows_calls [where i = 0 and rows = rows and n = "int (length rows)"
        and has_ws = "ws s" and userID = userID and exportID = exportID and status = status] ex
    by simp
  have s': "status'\<lparr>Progress := Finite 95\<rparr> = status\<lparr>Progress := Finite 95\<rparr>"
    using exportRows_status [where has_ws = "ws s" and userID = userID and exportID = exportID
        and n = "int (length rows)" and i = 0 and status = status and rows = rows
        and q = "Finite 95"] ex
    by simp
  have pos: "int (length rows) \<noteq> 0" using False by simp
  show ?thesis
    unfolding runUsersExport_def
    using list cols cne pos ex
    by (simp add: Let_def st [symmetric] c [symmetric] uploadPhaseS3_Progress [OF s']
        split: sum.splits)
qed

lemma runPaymentsExport_rows:
  assumes list: "repo_List s flt = Inr rows"
    and cols: "resolveColumns (registry paymentColumnKeys (registryColumn s)) selected = cols"
    and cne: "cols \<noteq> []"
    and st: "status = initialStatus exportID ''payments'' userID (buildFiltersMap s flt selected) createdAt"
  shows "runPaymentsExport s exportID selected flt userID createdAt =
           concat (map (checkpointCalls (ws s) userID exportID status (int (length rows)))
                     (checkpointRows 0 (int (length rows))))
           @ (case writeToBuffer s (map Header cols) (cellRows cols rows) of
                Inl err \<Rightarrow> []
              | Inr data \<Rightarrow>
                  uploadPhaseStorage s userID exportID status
                    (''payments_'' @ fileStamp s @ ''.xlsx'') data)"
proof (cases "rows = []")
  case True
  show ?thesis
    unfolding runPaymentsExport_def
    using list cols cne True
    by (simp add: Let_def st [symmetric] checkpointRows_empty split: sum.splits)
next
  case False
  obtain calls status' where ex:
    "exportRows (ws s) userID exportID (int (length rows)) 0 status rows = (calls, status')"
    by (cases "exportRows (ws s) userID exportID (int (length rows)) 0 status rows")
  have c: "calls = concat (map (checkpointCalls (ws s) userID exportID status (int (length rows)))
                     (checkpointRows 0 (int (length rows))))"
    using exportRows_calls [where i = 0 and rows = rows and n = "int (length rows)"
        and has_ws = "ws s" and userID = userID and exportID = exportID and status = status] ex
    by simp
  have s': "status'\<lparr>Progress := Finite 95\<rparr> = status\<lparr>Progress := Finite 95\<rparr>"
    using exportRows_status [where has_ws = "ws s" and userID = userID and exportID = exportID
        and n = "int (length rows)" and i = 0 and status = status and rows = rows
        and q = "Finite 95"] ex
    by simp
  have pos: "0 < int (length rows)" using False by simp
  show ?thesis
    unfolding runPaymentsExport_def
    using list cols cne pos ex
    by (simp add: Let_def st [symmetric] c [symmetric] uploadPhaseStorage_Progress [OF s']
        split: sum.splits)
qed

lemma runActionsExport_rows:
  assumes list: "repo_List s flt = Inr rows"
    and cols: "resolveColumns (registry actionColumnKeys (registryColumn s)) selected = cols"
    and cne: "cols \<noteq> []"
    and st: "status = initialStatus exportID ''actions'' userID (buildFiltersMap s flt selected) createdAt"
  shows "runActionsExport s exportID selected flt userID createdAt =
           (case writeToBuffer s (map Header cols) (cellRows cols rows) of
                Inl err \<Rightarrow> []
              | Inr data \<Rightarrow>
                  uploadPhaseS3 s userID exportID status
                    (''actions_'' @ fileStamp s @ ''.xlsx'') data)"
  unfolding runActionsExport_def
  using list cols cne
  by (simp add: Let_def st [symmetric] split: sum.splits)

text \<open>A task whose rows cannot be fetched or whose columns all fail to resolve does nothing.\<close>

lemma run_fetch_error:
  assumes "repo_List s flt = Inl err"
  shows "runDebtsExport s exportID selected flt userID createdAt = []"
    and "runUsersExport s exportID selected flt userID createdAt = []"
    and "runActionsExport s exportID selected flt userID createdAt = []"
    and "runPaymentsExport s exportID selected flt userID createdAt = []"
  using assms
  by (simp_all add: runDebtsExport_def runUsersExport_def runActionsExport_def
      runPaymentsExport_def Let_def)

lemma runDebtsExport_no_columns:
  "resolveColumns (registry debtColumnKeys (registryColumn s)) selected = []
     \<Longrightarrow> runDebtsExport s exportID selected flt userID createdAt = []"
  by (simp add: runDebtsExport_def Let_def split: sum.splits)

lemma runUsersExport_no_columns:
  "resolveColumns (registry userColumnKeys (registryColumn s)) selected = []
     \<Longrightarrow> runUsersExport s exportID selected flt userID createdAt = []"
  by (simp add: runUsersExport_def Let_def split: sum.splits)

lemma runActionsExport_no_columns:
  "resolveColumns (registry actionColumnKeys (registryColumn s)) selected = []
     \<Longrightarrow> runActionsExport s exportID selected flt userID createdAt = []"
  by (simp add: runActionsExport_def Let_def split: sum.splits)

lemma runPaymentsExport_no_columns:
  "resolveColumns (registry paymentColumnKeys (registryColumn s)) selected = []
     \<Longrightarrow> runPaymentsExport s exportID selected flt userID createdAt = []"
  by (simp add: runPaymentsExport_def Let_def split: sum.splits)

section \<open>Progress 100 and the terminal state\<close>

lemma callInvariant_persist:
  "progressInvariant st \<Longrightarrow> \<forall>c \<in> set (persist st). callInvariant c"
  by (simp add: persist_def callInvariant_def)

lemma callInvariant_notifyProgress:
  "\<forall>c \<in> set (notifyProgress has_ws userID exportID p stage). callInvariant c"
  by (simp add: notifyProgress_def callInvariant_def)

lemma progressInvariant_running:
  "FileURL st = None \<Longrightarrow> Error st = None \<Longrightarrow> p \<noteq> 100 \<Longrightarrow>
   progressInvariant (st\<lparr>Progress := Finite p\<rparr>)"
  by (simp add: progressInvariant_def)

lemma callInvariant_checkpointCalls:
  assumes "FileURL st = None" and "Error st = None"
  shows "\<forall>c \<in> set (checkpointCalls has_ws userID exportID st n j). callInvariant c"
proof -
  have "checkpointProgress j n \<noteq> 100"
    using checkpointProgress_lt_100 [of j n] by simp
  then have "progressInvariant (st\<lparr>Progress := Finite (checkpointProgress j n)\<rparr>)"
    using assms by (simp add: progressInvariant_running)
  then have "\<forall>c \<in> set (persist (st\<lparr>Progress := Finite (checkpointProgress j n)\<rparr>)).
      callInvariant c"
    by (rule callInvariant_persist)
  then show ?thesis
    unfolding checkpointCalls_def
    using callInvariant_notifyProgress [of has_ws userID exportID "checkpointProgress j n"
        "''generating''"]
    by (simp add: ball_Un)
qed

lemma callInvariant_exportRows:
  assumes "FileURL st = None" and "Error st = None" and "i + int (length rows) = n"
  shows "\<forall>c \<in> set (fst (exportRows has_ws userID exportID n i st rows)). callInvariant c"
  using callInvariant_checkpointCalls [OF assms(1,2)]
  by (auto simp: exportRows_calls [OF assms(3)])

lemma exportRows_FileURL:
  "FileURL (snd (exportRows has_ws userID exportID n i st rows)) = FileURL st"
  using arg_cong [OF exportRows_status [where has_ws = has_ws and userID = userID
        and exportID = exportID and n = n and i = i and status = st and rows = rows
        and q = "Finite 0"], of FileURL]
  by simp

lemma exportRows_Error:
  "Error (snd (exportRows has_ws userID exportID n i st rows)) = Error st"
  using arg_cong [OF exportRows_status [where has_ws = has_ws and userID = userID
        and exportID = exportID and n = n and i = i and status = st and rows = rows
        and q = "Finite 0"], of Error]
  by simp

lemma callInvariant_uploadPhaseS3:
  assumes url: "FileURL st = None" and err: "Error st = None"
  shows "\<forall>c \<in> set (uploadPhaseS3 s userID exportID st fileName data). callInvariant c"
proof (cases "s3 s")
  case None
  then show ?thesis by (simp add: uploadPhaseS3_def)
next
  case (Some c)
  have before: "\<forall>x \<in> set (persist (st\<lparr>Progress := Finite 95\<rparr>)
                   @ notifyProgress (ws s) userID exportID 95 ''uploading''
                   @ [StoreFile fileName]). callInvariant x"
    using url err
    by (simp add: persist_def notifyProgress_def callInvariant_def progressInvariant_def)
  show ?thesis
  proof (cases "s3_UploadXLSX c fileName data")
    case (Inl e)
    then show ?thesis using Some before by (simp add: uploadPhaseS3_def Let_def)
  next
    case (Inr key)
    show ?thesis
    proof (cases "s3_GetTemporaryURL c key urlTTL")
      case (Inl e2)
      then show ?thesis using Some Inr before by (simp add: uploadPhaseS3_def Let_def)
    next
      case (Inr link)
      have "uploadPhaseS3 s userID exportID st fileName data =
              (persist (st\<lparr>Progress := Finite 95\<rparr>)
                 @ notifyProgress (ws s) userID exportID 95 ''uploading''
                 @ [StoreFile fileName])
              @ persist (st\<lparr>Progress := Finite 95, FileURL := Some link,
                            Progress := Finite 100\<rparr>)
              @ (if ws s
                 then [NotifyExportProgress userID exportID (Finite 100) ''ready'',
                       NotifyExportComplete userID exportID link fileName]
                 else [])"
        using Some \<open>s3_UploadXLSX c fileName data = Inr key\<close> Inr
        by (simp add: uploadPhaseS3_def Let_def)
      moreover have "\<forall>x \<in> set (persist (st\<lparr>Progress := Finite 95, FileURL := Some link,
                            Progress := Finite 100\<rparr>)
              @ (if ws s
                 then [NotifyExportProgress userID exportID (Finite 100) ''ready'',
                       NotifyExportComplete userID exportID link fileName]
                 else [])). callInvariant x"
        by (auto simp: persist_def callInvariant_def progressInvariant_def)
      ultimately show ?thesis using before by (simp only: set_append ball_Un)
    qed
  qed
qed

lemma callInvariant_uploadPhaseStorage:
  assumes url: "FileURL st = None" and err: "Error st = None"
  shows "\<forall>c \<in> set (uploadPhaseStorage s userID exportID st fileName data). callInvariant c"
proof (cases "storage s")
  case None
  then show ?thesis by (simp add: uploadPhaseStorage_def)
next
  case (Some c)
  have before: "\<forall>x \<in> set (persist (st\<lparr>Progress := Finite 95\<rparr>)
                   @ notifyProgress (ws s) userID exportID 95 ''uploading''
                   @ [StoreFile fileName]). callInvariant x"
    using url err
    by (simp add: persist_def notifyProgress_def callInvariant_def progressInvariant_def)
  show ?thesis
  proof (cases "st_Save c fileName data")
    case (Inl e)
    have "uploadPhaseStorage s userID exportID st fileName data =
            (persist (st\<lparr>Progress := Finite 95\<rparr>)
               @ notifyProgress (ws s) userID exportID 95 ''uploading''
               @ [StoreFile fileName])
            @ persist (st\<lparr>Progress := Finite 95,
                          Error := Some (''save export failed: '' @ errorText s e),
                          Progress := Finite 100\<rparr>)
            @ (if ws s
               then [NotifyExportFailed userID exportID
                       (''save export failed: '' @ errorText s e)]
               else [])"
      using Some Inl by (simp add: uploadPhaseStorage_def Let_def)
    moreover have "\<forall>x \<in> set (persist (st\<lparr>Progress := Finite 95,
                          Error := Some (''save export failed: '' @ errorText s e),
                          Progress := Finite 100\<rparr>)
            @ (if ws s
               then [NotifyExportFailed userID exportID
                       (''save export failed: '' @ errorText s e)]
               else [])). callInvariant x"
      by (auto simp: persist_def callInvariant_def progressInvariant_def)
    ultimately show ?thesis using before by (simp only: set_append ball_Un)
  next
    case (Inr savedName)
    have "uploadPhaseStorage s userID exportID st fileName data =
            (persist (st\<lparr>Progress := Finite 95\<rparr>)
               @ notifyProgress (ws s) userID exportID 95 ''uploading''
               @ [StoreFile fileName])
            @ persist (st\<lparr>Progress := Finite 95, FileURL := Some (st_GetURL c savedName),
                          Progress := Finite 100\<rparr>)
            @ (if ws s
               then [NotifyExportProgress userID exportID (Finite 100) ''ready'',
                     NotifyExportComplete userID exportID (st_GetURL c savedName) fileName]
               else [])"
      using Some Inr by (simp add: uploadPhaseStorage_def Let_def)
    moreover have "\<forall>x \<in> set (persist (st\<lparr>Progress := Finite 95,
                          FileURL := Some (st_GetURL c savedName), Progress := Finite 100\<rparr>)
            @ (if ws s
               then [NotifyExportProgress userID exportID (Finite 100) ''ready'',
                     NotifyExportComplete userID exportID (st_GetURL c savedName) fileName]
               else [])). callInvariant x"
      by (auto simp: persist_def callInvariant_def progressInvariant_def)
    ultimately show ?thesis using before by (simp only: set_append ball_Un)
  qed
qed

lemma initialStatus_fresh:
  "FileURL (initialStatus exportID k userID f t) = None"
  "Error (initialStatus exportID k userID f t) = None"
  "Progress (initialStatus exportID k userID f t) = Finite 0"
  by (simp_all add: initialStatus_def)

lemma callInvariant_checkpoints:
  assumes "FileURL st = None" and "Error st = None"
  shows "\<forall>c \<in> set (concat (map (checkpointCalls has_ws userID exportID st n) js)).
           callInvariant c"
  using callInvariant_checkpointCalls [OF assms] by auto

lemma callInvariant_afterRows:
  assumes "\<And>data. \<forall>c \<in> set (phase data). callInvariant c"
  shows "\<forall>c \<in> set (case wb of Inl err \<Rightarrow> [] | Inr data \<Rightarrow> phase data). callInvariant c"
  using assms by (cases wb) auto

lemma callInvariant_runDebtsExport:
  "\<forall>c \<in> set (runDebtsExport s exportID selected flt userID createdAt). callInvariant c"
proof (cases "repo_List s flt")
  case (Inl err)
  then show ?thesis by (simp add: run_fetch_error)
next
  case (Inr rows)
  show ?thesis
  proof (cases "resolveColumns (registry debtColumnKeys (registryColumn s)) selected = []")
    case True
    then show ?thesis by (simp add: runDebtsExport_no_columns)
  next
    case False
    show ?thesis
      unfolding runDebtsExport_rows [OF Inr refl False refl] set_append ball_Un
      by (intro conjI callInvariant_checkpoints callInvariant_afterRows
          callInvariant_uploadPhaseS3 initialStatus_fresh)
  qed
qed

lemma callInvariant_runUsersExport:
  "\<forall>c \<in> set (runUsersExport s exportID selected flt userID createdAt). callInvariant c"
proof (cases "repo_List s flt")
  case (Inl err)
  then show ?thesis by (simp add: run_fetch_error)
next
  case (Inr rows)
  show ?thesis
  proof (cases "resolveColumns (registry userColumnKeys (registryColumn s)) selected = []")
    case True
    then show ?thesis by (simp add: runUsersExport_no_columns)
  next
    case False
    show ?thesis
      unfolding runUsersExport_rows [OF Inr refl False refl] set_append ball_Un
      by (intro conjI callInvariant_checkpoints callInvariant_afterRows
          callInvariant_uploadPhaseS3 initialStatus_fresh)
  qed
qed

lemma callInvariant_runActionsExport:
  "\<forall>c \<in> set (runActionsExport s exportID selected flt userID createdAt). callInvariant c"
proof (cases "repo_List s flt")
  case (Inl err)
  then show ?thesis by (simp add: run_fetch_error)
next
  case (Inr rows)
  show ?thesis
  proof (cases "resolveColumns (registry actionColumnKeys (registryColumn s)) selected = []")
    case True
    then show ?thesis by (simp add: runActionsExport_no_columns)
  next
    case False
    show ?thesis
      unfolding runActionsExport_rows [OF Inr refl False refl]
      by (intro callInvariant_afterRows callInvariant_uploadPhaseS3 initialStatus_fresh)
  qed
qed

lemma callInvariant_runPaymentsExport:
  "\<forall>c \<in> set (runPaymentsExport s exportID selected flt userID createdAt). callInvariant c"
proof (cases "repo_List s flt")
  case (Inl err)
  then show ?thesis by (simp add: run_fetch_error)
next
  case (Inr rows)
  show ?thesis
  proof (cases "resolveColumns (registry paymentColumnKeys (registryColumn s)) selected = []")
    case True
    then show ?thesis by (simp add: runPaymentsExport_no_columns)
  next
    case False
    show ?thesis
      unfolding runPaymentsExport_rows [OF Inr refl False refl] set_append ball_Un
      by (intro conjI callInvariant_checkpoints callInvariant_afterRows
          callInvariant_uploadPhaseStorage initialStatus_fresh)
  qed
qed

lemma callInvariant_runTask: "\<forall>c \<in> set (runTask s t). callInvariant c"
  unfolding runTask_def
  by (cases "task_kind t")
     (simp_all add: callInvariant_runDebtsExport callInvariant_runUsersExport
        callInvariant_runActionsExport callInvariant_runPaymentsExport)

lemma callInvariant_initial:
  "callInvariant (SaveExportStatus (initialStatus exportID k userID f t))"
  "callInvariant (SaveLaravelCache (initialStatus exportID k userID f t))"
  by (simp_all add: callInvariant_def progressInvariant_def initialStatus_def)

lemma callInvariant_createJob:
  "\<forall>e \<in> set (snd (createJob s k kindName uuid now selected flt userID)).
     \<forall>c \<in> set (effectCalls s e). callInvariant c"
  by (simp add: createJob_def Let_def callInvariant_runTask callInvariant_initial)

lemma callInvariant_Submit:
  "\<forall>e \<in> set (snd (Submit s k uuid now selected flt userID)).
     \<forall>c \<in> set (effectCalls s e). callInvariant c"
proof (cases k)
  case Debts
  then show ?thesis
    using callInvariant_createJob [of s Debts]
    by (simp add: Submit_def StartDebtsExport_def Let_def)
next
  case Users
  then show ?thesis
    using callInvariant_createJob [of s Users]
    by (simp add: Submit_def StartUsersExport_def Let_def)
next
  case Actions
  then show ?thesis
    using callInvariant_createJob [of s Actions]
    by (simp add: Submit_def StartActionsExport_def Let_def split: sum.splits)
next
  case Payments
  then show ?thesis
    using callInvariant_createJob [of s Payments]
    by (simp add: Submit_def StartPaymentsExport_def Let_def split: sum.splits)
qed

lemma callInvariant_jobCalls:
  "\<forall>c \<in> set (jobCalls s k uuid now selected flt userID). callInvariant c"
  unfolding jobCalls_def using callInvariant_Submit [of s k uuid now selected flt userID]
  by auto

lemma persisted_callInvariant:
  assumes "\<forall>c \<in> set calls. callInvariant c"
  shows "\<forall>st \<in> set (persisted calls) \<union> set (persistedLegacy calls). progressInvariant st"
  using assms by (auto simp: persisted_def persistedLegacy_def callInvariant_def)


lemma demo0_calls:
  "jobCalls (demoService 0) Debts ''u'' demoTime [] () 7 =
     (let st = initialStatus ''exports:u'' ''debts'' 7 () demoTime;
          f = ''debts_20251125_140206.xlsx'';
          url = ''https://s3.test/exports/debts_20251125_140206.xlsx''
      in [SaveExportStatus st, SaveLaravelCache st,
          SaveExportStatus (st\<lparr>Progress := Finite 95\<rparr>),
          SaveLaravelCache (st\<lparr>Progress := Finite 95\<rparr>),
          NotifyExportProgress 7 ''exports:u'' (Finite 95) ''uploading'',
          StoreFile f,
          SaveExportStatus (st\<lparr>Progress := Finite 100, FileURL := Some url\<rparr>),
          SaveLaravelCache (st\<lparr>Progress := Finite 100, FileURL := Some url\<rparr>),
          NotifyExportProgress 7 ''exports:u'' (Finite 100) ''ready'',
          NotifyExportComplete 7 ''exports:u'' url f])"
  by (simp add: jobCalls_def Submit_def StartDebtsExport_def createJob_def runTask_def
      runDebtsExport_def demoService_def registry_def debtColumnKeys_def Let_def
      uploadPhaseS3_def persist_def notifyProgress_def cellRows_def initialStatus_def)


text \<open>
  Claim C1. Every status a job hands to the primary or to the legacy persistence helper,
  from the submission to the end of its task and for each of the four export kinds, has
  progress 100 exactly when its artifact URL or its error message is set.
\<close>

theorem progress_100_iff_terminal:
  "\<forall>st \<in> set (persisted (jobCalls s k uuid now selected flt userID))
        \<union> set (persistedLegacy (jobCalls s k uuid now selected flt userID)).
     (Progress st = Finite 100) = (FileURL st \<noteq> None \<or> Error st \<noteq> None)"
  using persisted_callInvariant [OF callInvariant_jobCalls [of s k uuid now selected flt userID]]
  by (simp add: progressInvariant_def)

theorem progress_100_iff_terminal_witness:
  "(initialStatus ''exports:u'' ''debts'' 7 () demoTime)
      \<lparr>Progress := Finite 100,
        FileURL := Some ''https://s3.test/exports/debts_20251125_140206.xlsx''\<rparr>
     \<in> set (persisted (jobCalls (demoService 0) Debts ''u'' demoTime [] () 7))
   \<and> Progress ((initialStatus ''exports:u'' ''debts'' 7 () demoTime)
      \<lparr>Progress := Finite 100,
        FileURL := Some ''https://s3.test/exports/debts_20251125_140206.xlsx''\<rparr>) = Finite 100
   \<and> FileURL ((initialStatus ''exports:u'' ''debts'' 7 () demoTime)
      \<lparr>Progress := Finite 100,
        FileURL := Some ''https://s3.test/exports/debts_20251125_140206.xlsx''\<rparr>) \<noteq> None"
  using progress_100_iff_terminal [of "demoService 0" Debts "''u''" demoTime "[]" "()" 7]
  by (simp add: demo0_calls persisted_def Let_def)

section \<open>Checkpoints\<close>

lemma succ_div_mod_1000:
  fixes m :: int
  assumes "0 \<le> m"
  shows "if m mod 1000 = 999
         then (m + 1) mod 1000 = 0 \<and> (m + 1) div 1000 = m div 1000 + 1
         else (m + 1) mod 1000 \<noteq> 0 \<and> (m + 1) div 1000 = m div 1000"
proof -
  define q r where "q = m div 1000" and "r = m mod 1000"
  have m: "m = r + q * 1000" unfolding q_def r_def by simp
  have r: "0 \<le> r" "r < 1000" unfolding r_def by simp_all
  show ?thesis
  proof (cases "r = 999")
    case True
    have e: "m + 1 = 0 + (q + 1) * 1000" using m True by (simp add: algebra_simps)
    have "(m + 1) mod 1000 = 0" unfolding e by simp
    moreover have "(m + 1) div 1000 = q + 1" unfolding e by simp
    ultimately show ?thesis using True by (simp add: q_def r_def)
  next
    case False
    have e: "m + 1 = (r + 1) + q * 1000" using m by linarith
    have rr: "0 \<le> r + 1" "r + 1 < 1000" using r False by linarith+
    have "(m + 1) mod 1000 = r + 1" unfolding e using rr by simp
    moreover have "(m + 1) div 1000 = q" unfolding e using rr by simp
    ultimately show ?thesis using False r by (simp add: q_def r_def)
  qed
qed

lemma multiples_upto:
  "0 \<le> m \<Longrightarrow> filter (\<lambda>j. j mod 1000 = 0) [1..m] = map (\<lambda>k. 1000 * k) [1..m div 1000]"
proof (induction m rule: int_ge_induct)
  case base
  show ?case by simp
next
  case (step m)
  have up: "[1..m + 1] = [1..m] @ [m + 1]"
    using step.hyps by (simp add: upto_rec2)
  show ?case
  proof (cases "m mod 1000 = 999")
    case True
    have f: "(m + 1) mod 1000 = 0" and d: "(m + 1) div 1000 = m div 1000 + 1"
      using succ_div_mod_1000 [OF step.hyps] True by simp_all
    have v: "m + 1 = 1000 * (m div 1000 + 1)"
      using f d by (metis mult_div_mod_eq add.right_neutral)
    have q: "0 \<le> m div 1000" using step.hyps by (simp add: pos_imp_zdiv_nonneg_iff)
    have up2: "[1..m div 1000 + 1] = [1..m div 1000] @ [m div 1000 + 1]"
      using q by (simp add: upto_rec2)
    have "filter (\<lambda>j. j mod 1000 = 0) ([1..m] @ [m + 1])
            = filter (\<lambda>j. j mod 1000 = 0) [1..m] @ [m + 1]"
      by (simp add: f)
    also have "\<dots> = map (\<lambda>k. 1000 * k) [1..m div 1000] @ [1000 * (m div 1000 + 1)]"
      by (simp only: step.IH v [symmetric])
    also have "\<dots> = map (\<lambda>k. 1000 * k) ([1..m div 1000] @ [m div 1000 + 1])"
      by simp
    finally show ?thesis
      by (simp only: up d up2)
  next
    case False
    have f: "(m + 1) mod 1000 \<noteq> 0" and d: "(m + 1) div 1000 = m div 1000"
      using succ_div_mod_1000 [OF step.hyps] False by simp_all
    have "filter (\<lambda>j. j mod 1000 = 0) ([1..m] @ [m + 1])
            = filter (\<lambda>j. j mod 1000 = 0) [1..m]"
      by (simp add: f)
    then show ?thesis by (simp only: up d step.IH)
  qed
qed

lemma checkpointRows_closed_form:
  assumes "1 \<le> n"
  shows "checkpointRows 0 n = map (\<lambda>k. 1000 * k) [1..(n - 1) div 1000] @ [n]"
proof -
  have up: "[0 + 1..n] = [1..n - 1] @ [n]"
    using assms by (simp add: upto_rec2)
  have "filter (\<lambda>j. j mod 1000 = 0 \<or> j = n) [1..n - 1] = filter (\<lambda>j. j mod 1000 = 0) [1..n - 1]"
    by (rule filter_cong) auto
  then show ?thesis
    unfolding checkpointRows_def up
    using multiples_upto [of "n - 1"] assms by simp
qed


lemma checkpointRows_1010: "checkpointRows 0 1010 = [1000, 1010]"
  by (simp add: checkpointRows_closed_form upto_rec1)


lemma persisted_append: "persisted (a @ b) = persisted a @ persisted b"
  by (simp add: persisted_def)


lemma persisted_checkpointCalls:
  "persisted (checkpointCalls has_ws userID exportID st n j)
     = [st\<lparr>Progress := Finite (checkpointProgress j n)\<rparr>]"
  by (simp add: checkpointCalls_def persisted_def persist_def notifyProgress_def)



lemma demoService_fields:
  "repo_List (demoService n) flt = Inr (replicate n ())"
  "ws (demoService n) = True"
  "fileStamp (demoService n) = ''20251125_140206''"
  "writeToBuffer (demoService n) hs cells = Inr ''xlsx''"
  "buildFiltersMap (demoService n) flt fs = ()"
  "s3 (demoService n) = Some \<lparr> s3_UploadXLSX = (\<lambda>fileName data. Inr (''exports/'' @ fileName)),
                   s3_GetTemporaryURL = (\<lambda>key ttl. Inr (''https://s3.test/'' @ key)) \<rparr>"
  "storage (demoService n) = Some \<lparr> st_Save = (\<lambda>fileName data. Inr (''d94b8b43a916d58b_'' @ fileName)),
                        st_GetURL = (\<lambda>name. ''/files/'' @ name) \<rparr>"
  "registryColumn (demoService n) key = \<lparr> Header = key, Value = (\<lambda>row. ()) \<rparr>"
  by (simp_all add: demoService_def)

lemma demo_number_column:
  "resolveColumns (registry debtColumnKeys (registryColumn (demoService n))) [''number'']
     = [\<lparr> Header = ''number'', Value = (\<lambda>row. ()) \<rparr>]"
  by (simp add: registry_def debtColumnKeys_def demoService_fields)









section \<open>The order of the persisted progress values\<close>

lemma jobCalls_Debts:
  "selected \<noteq> [] \<Longrightarrow>
   jobCalls s Debts uuid now selected flt userID =
     persist (initialStatus (''exports:'' @ uuid) ''debts'' userID
                (buildFiltersMap s flt selected) now)
     @ runDebtsExport s (''exports:'' @ uuid) selected flt userID now"
  by (simp add: jobCalls_def Submit_def StartDebtsExport_def createJob_def runTask_def Let_def
      persist_def)

lemma progressValues_append:
  "progressValues (a @ b) = progressValues a @ progressValues b"
  by (simp add: progressValues_def persisted_append)

lemma progressValues_checkpointCalls:
  "progressValues (checkpointCalls has_ws userID exportID st n j) = [checkpointProgress j n]"
  by (simp add: progressValues_def persisted_checkpointCalls)

lemma progressValues_persist:
  "progressValues (persist st) = finiteValue (Progress st)"
  by (simp add: progressValues_def persisted_def persist_def)

lemma demo_progressValues_uploadPhaseS3:
  "progressValues (uploadPhaseS3 (demoService n) userID exportID st fileName data) = [95, 100]"
  by (simp add: uploadPhaseS3_def demoService_fields Let_def progressValues_def persisted_def
      persist_def notifyProgress_def)


text \<open>
  Claim C2. The persisted progress values of a job are meant never to decrease. A debts
  export of 1010 rows persists 0 at submission, 99 after row 1000, 95 after row 1010 (the
  100 of the last row, replaced), 95 before the upload and 100 at the end: the value
  drops from 99 to 95.
\<close>

theorem progress_drops_from_99_to_95:
  "progressValues (jobCalls (demoService 1010) Debts ''u'' demoTime [''number''] () 7)
     = [0, 99, 95, 95, 100]
   \<and> \<not> sorted (progressValues
                   (jobCalls (demoService 1010) Debts ''u'' demoTime [''number''] () 7))"
proof -
  have list: "repo_List (demoService 1010) () = Inr (replicate 1010 ())"
    by (simp add: demoService_fields)
  have run: "runDebtsExport (demoService 1010) ''exports:u'' [''number''] () 7 demoTime =
      concat (map (checkpointCalls True 7 ''exports:u''
                     (initialStatus ''exports:u'' ''debts'' 7 () demoTime) 1010)
                (checkpointRows 0 1010))
      @ uploadPhaseS3 (demoService 1010) 7 ''exports:u''
          (initialStatus ''exports:u'' ''debts'' 7 () demoTime)
          ''debts_20251125_140206.xlsx'' ''xlsx''"
    using runDebtsExport_rows [OF list demo_number_column _ refl, of "''exports:u''" 7 demoTime]
    by (simp add: demoService_fields)
  have vals: "progressValues
      (jobCalls (demoService 1010) Debts ''u'' demoTime [''number''] () 7)
     = [0, 99, 95, 95, 100]"
    by (simp add: jobCalls_Debts run checkpointRows_1010 progressValues_append
        progressValues_checkpointCalls progressValues_persist demo_progressValues_uploadPhaseS3
        checkpointProgress_1000_1010 checkpointProgress_1010_1010 initialStatus_def
        demoService_fields)
  show ?thesis unfolding vals by simp
qed

section \<open>Submission\<close>

lemma resolveColumns_unknown:
  "set selected \<inter> set keys = {} \<Longrightarrow> resolveColumns (registry keys col) selected = []"
  by (induction selected) (auto simp: registry_def)


text \<open>
  Claim C6. When the pre-flight count check of an actions or a payments submission
  reports more rows than the maximum of 500000, the submission returns the row ceiling
  error and does nothing else: it draws no UUID, calls no persistence helper and starts
  no task, so the job makes no call at all.
\<close>

theorem preflight_rejects_without_creating_job:
  "(repo_HasMoreThan s maxActionsForExport flt = Inr True \<longrightarrow>
      StartActionsExport s uuid now selected flt userID
        = (Inl (TooMany ''actions'' 500000), [])
      \<and> jobCalls s Actions uuid now selected flt userID = [])
   \<and> (repo_HasMoreThan s maxPaymentsForExport flt = Inr True \<longrightarrow>
      StartPaymentsExport s uuid now selected flt userID
        = (Inl (TooMany ''payments'' 500000), [])
      \<and> jobCalls s Payments uuid now selected flt userID = [])
   \<and> maxActionsForExport = 500000 \<and> maxPaymentsForExport = 500000"
  by (simp add: StartActionsExport_def StartPaymentsExport_def maxActionsForExport_def
      maxPaymentsForExport_def jobCalls_def Submit_def Let_def)

theorem preflight_rejects_without_creating_job_witness:
  "repo_HasMoreThan (demoService 500001) maxPaymentsForExport () = Inr True
   \<and> StartPaymentsExport (demoService 500001) ''u'' demoTime [] () 7
       = (Inl (TooMany ''payments'' 500000), [])
   \<and> repo_HasMoreThan (demoService 500001) maxActionsForExport () = Inr True
   \<and> StartActionsExport (demoService 500001) ''u'' demoTime [] () 7
       = (Inl (TooMany ''actions'' 500000), [])"
proof -
  have p: "repo_HasMoreThan (demoService 500001) maxPaymentsForExport () = Inr True"
    by (simp add: demoService_def maxPaymentsForExport_def)
  have a: "repo_HasMoreThan (demoService 500001) maxActionsForExport () = Inr True"
    by (simp add: demoService_def maxActionsForExport_def)
  show ?thesis
    using preflight_rejects_without_creating_job
      [of "demoService 500001" "()" "''u''" demoTime "[]" 7] p a
    by simp
qed


text \<open>
  Claim C7. A submission whose selected keys all fail to resolve is meant to fail with a
  "no valid fields" error and create no job. \<open>StartDebtsExport\<close> with the single unknown
  key \<open>bogus\<close> returns a job ID, persists the initial status under both
  representations and starts the task; the task resolves no column and returns without a
  call, so the job stays at progress 0.
\<close>

theorem unresolved_fields_still_create_job:
  "StartDebtsExport s uuid now [''bogus''] flt userID =
     (Inr (''exports:'' @ uuid),
      [NewUUID uuid,
       Call (SaveExportStatus (initialStatus (''exports:'' @ uuid) ''debts'' userID
               (buildFiltersMap s flt [''bogus'']) now)),
       Call (SaveLaravelCache (initialStatus (''exports:'' @ uuid) ''debts'' userID
               (buildFiltersMap s flt [''bogus'']) now)),
       Go \<lparr> task_kind = Debts, task_exportID = ''exports:'' @ uuid,
            task_selected = [''bogus''], task_filter = flt, task_userID = userID,
            task_createdAt = now \<rparr>])
   \<and> resolveColumns (registry debtColumnKeys (registryColumn s)) [''bogus''] = []
   \<and> runDebtsExport s (''exports:'' @ uuid) [''bogus''] flt userID now = []
   \<and> progressValues (jobCalls s Debts uuid now [''bogus''] flt userID) = [0]"
proof -
  have r: "resolveColumns (registry debtColumnKeys (registryColumn s)) [''bogus''] = []"
    by (rule resolveColumns_unknown) (simp add: debtColumnKeys_def)
  have run: "runDebtsExport s (''exports:'' @ uuid) [''bogus''] flt userID now = []"
    by (rule runDebtsExport_no_columns [OF r])
  have start: "StartDebtsExport s uuid now [''bogus''] flt userID =
     (Inr (''exports:'' @ uuid),
      [NewUUID uuid,
       Call (SaveExportStatus (initialStatus (''exports:'' @ uuid) ''debts'' userID
               (buildFiltersMap s flt [''bogus'']) now)),
       Call (SaveLaravelCache (initialStatus (''exports:'' @ uuid) ''debts'' userID
               (buildFiltersMap s flt [''bogus'']) now)),
       Go \<lparr> task_kind = Debts, task_exportID = ''exports:'' @ uuid,
            task_selected = [''bogus''], task_filter = flt, task_userID = userID,
            task_createdAt = now \<rparr>])"
    by (simp add: StartDebtsExport_def createJob_def Let_def)
  have "jobCalls s Debts uuid now [''bogus''] flt userID =
          persist (initialStatus (''exports:'' @ uuid) ''debts'' userID
                     (buildFiltersMap s flt [''bogus'']) now)"
    using jobCalls_Debts [where selected = "[''bogus'']" and s = s and uuid = uuid
        and now = now and flt = flt and userID = userID] run
    by simp
  then have vals: "progressValues (jobCalls s Debts uuid now [''bogus''] flt userID) = [0]"
    by (simp add: progressValues_persist initialStatus_def)
  show ?thesis
    by (intro conjI start r run vals)
qed


section \<open>Reading a status\<close>

text \<open>
  Claim C5. When the cache holds a status under the job ID and its owner is not the
  caller, \<open>GetExport\<close> returns the error \<open>export not found\<close>, the very result it
  returns on any cache in which the lookup of that ID fails.
\<close>

theorem foreign_status_reads_as_not_found:
  assumes "es_redis s = Some c" and "redis_Get c exportID = Inr data"
    and "es_unmarshal s data = Inr status" and "UserID status \<noteq> userID"
    and "es_redis s' = Some c'" and "redis_Get c' exportID = Inl missing"
  shows "GetExport s exportID userID = Inl (ErrorString ''export not found'')
         \<and> GetExport s exportID userID = GetExport s' exportID userID"
  using assms by (simp add: GetExport_def)


theorem foreign_status_reads_as_not_found_witness:
  "GetExport (demoExportService [''app:exports:1'' \<mapsto> ''{status of exports:1}'']) ''exports:1'' 8
     = Inl (ErrorString ''export not found'')
   \<and> GetExport (demoExportService [''app:exports:1'' \<mapsto> ''{status of exports:1}'']) ''exports:1'' 8
     = GetExport (demoExportService Map.empty) ''exports:1'' 8
   \<and> em_key (projr (GetExport (demoExportService [''app:exports:1'' \<mapsto> ''{status of exports:1}''])
                  ''exports:1'' 7)) = ''exports:1''"
proof -
  let ?kv = "[''app:exports:1'' \<mapsto> ''{status of exports:1}'']"
  have 1: "es_redis (demoExportService ?kv) = Some (demoRedis ?kv)"
    by (simp add: demoExportService_def)
  have 2: "redis_Get (demoRedis ?kv) ''exports:1'' = Inr ''{status of exports:1}''"
    by (simp add: redis_Get_def withPrefix_def demoRedis_def)
  have 3: "es_unmarshal (demoExportService ?kv) ''{status of exports:1}'' = Inr demoStatus"
    by (simp add: demoExportService_def)
  have 4: "UserID demoStatus \<noteq> 8"
    by (simp add: demoStatus_def initialStatus_def)
  have 5: "es_redis (demoExportService Map.empty) = Some (demoRedis Map.empty)"
    by (simp add: demoExportService_def)
  have 6: "redis_Get (demoRedis Map.empty) ''exports:1'' = Inl (External ''redis: nil'')"
    by (simp add: redis_Get_def withPrefix_def demoRedis_def)
  have owner: "em_key (projr (GetExport (demoExportService ?kv) ''exports:1'' 7)) = ''exports:1''"
    by (simp add: GetExport_def 1 2 3 demoStatus_def initialStatus_def)
  show ?thesis
    using foreign_status_reads_as_not_found [OF 1 2 3 4 5 6] owner by blast
qed


section \<open>The upload and its retries\<close>

text \<open>The loop unrolled: what the third, the second and the first attempt do.\<close>

lemma uploadLoop_4: "uploadLoop e key 4 backoff lastErr = (Inl (PutFailed key 3 lastErr), [])"
  by (simp add: uploadLoop.simps uploadAttempts_def)

lemma uploadLoop_3:
  "uploadLoop e key 3 backoff lastErr =
     (if ctxErrAt e 3 then (Inl ContextErr, [])
      else case putObject e 3 of
             Some err \<Rightarrow> (Inl (PutFailed key 3 (Some err)), [Put 3])
           | None \<Rightarrow> (Inr key, [Put 3]))"
  by (simp add: uploadLoop.simps [of e key 3] uploadLoop_4 uploadAttempts_def split: option.splits)

lemma uploadLoop_2:
  "uploadLoop e key 2 backoff lastErr =
     (if ctxErrAt e 2 then (Inl ContextErr, [])
      else case putObject e 2 of
             Some err \<Rightarrow>
               (if doneDuring e 2 then (Inl ContextErr, [Put 2])
                else (fst (uploadLoop e key 3 (backoff * 2) (Some err)),
                      Put 2 # Slept backoff # snd (uploadLoop e key 3 (backoff * 2) (Some err))))
           | None \<Rightarrow> (Inr key, [Put 2]))"
  by (simp add: uploadLoop.simps [of e key 2] uploadAttempts_def split_beta
      split: option.splits)

lemma uploadLoop_1:
  "uploadLoop e key 1 backoff lastErr =
     (if ctxErrAt e 1 then (Inl ContextErr, [])
      else case putObject e 1 of
             Some err \<Rightarrow>
               (if doneDuring e 1 then (Inl ContextErr, [Put 1])
                else (fst (uploadLoop e key 2 (backoff * 2) (Some err)),
                      Put 1 # Slept backoff # snd (uploadLoop e key 2 (backoff * 2) (Some err))))
           | None \<Rightarrow> (Inr key, [Put 1]))"
  by (subst uploadLoop.simps)
     (simp del: One_nat_def add: uploadAttempts_def split_beta split: option.splits)

lemma putCount_simps:
  "putCount [] = 0"
  "putCount (Put k # evs) = Suc (putCount evs)"
  "putCount (Slept d # evs) = putCount evs"
  by (simp_all add: putCount_def)

lemma putCount_uploadLoop_3: "putCount (snd (uploadLoop e key 3 backoff lastErr)) \<le> 1"
  by (simp add: uploadLoop_3 putCount_simps split: option.splits)

lemma putCount_uploadLoop_2: "putCount (snd (uploadLoop e key 2 backoff lastErr)) \<le> 2"
  using putCount_uploadLoop_3 [of e key]
  by (simp add: uploadLoop_2 putCount_simps split: option.splits)

lemma putCount_uploadLoop_1: "putCount (snd (uploadLoop e key 1 backoff lastErr)) \<le> 3"
  using putCount_uploadLoop_2 [of e key]
  by (simp del: One_nat_def add: uploadLoop_1 putCount_simps split: option.splits)

text \<open>
  Claim C4. On a client that is set up, \<open>UploadXLSX\<close> calls \<open>PutObject\<close> at most three
  times. When the first two attempts fail and the third succeeds, it returns the key
  after exactly three attempts, having waited 500 ms and then 1000 ms. When all three
  fail, it returns the error that wraps the last failure and names the key and the count
  3, after the same attempts and waits. When the context is cancelled as an attempt
  starts, or during the wait after a failed attempt, it returns the error of the context
  at once: the attempts made are those before the cancellation, and none follows.
\<close>

theorem upload_retries_three_times:
  assumes raw: "\<not> raw_nil e"
  shows
    "putCount (snd (UploadXLSX e fileName data)) \<le> 3
     \<and> (\<not> ctxErrAt e 1 \<and> putObject e 1 = Some err1 \<and> \<not> doneDuring e 1
          \<and> \<not> ctxErrAt e 2 \<and> putObject e 2 = Some err2 \<and> \<not> doneDuring e 2
          \<and> \<not> ctxErrAt e 3 \<and> putObject e 3 = None
        \<longrightarrow> UploadXLSX e fileName data
              = (Inr (s3_prefix e @ fileName), [Put 1, Slept 500, Put 2, Slept 1000, Put 3]))
     \<and> (\<not> ctxErrAt e 1 \<and> putObject e 1 = Some err1 \<and> \<not> doneDuring e 1
          \<and> \<not> ctxErrAt e 2 \<and> putObject e 2 = Some err2 \<and> \<not> doneDuring e 2
          \<and> \<not> ctxErrAt e 3 \<and> putObject e 3 = Some err3
        \<longrightarrow> UploadXLSX e fileName data
              = (Inl (PutFailed (s3_prefix e @ fileName) 3 (Some err3)),
                 [Put 1, Slept 500, Put 2, Slept 1000, Put 3]))
     \<and> (ctxErrAt e 1 \<longrightarrow> UploadXLSX e fileName data = (Inl ContextErr, []))
     \<and> (\<not> ctxErrAt e 1 \<and> putObject e 1 = Some err1 \<and> doneDuring e 1
        \<longrightarrow> UploadXLSX e fileName data = (Inl ContextErr, [Put 1]))
     \<and> (\<not> ctxErrAt e 1 \<and> putObject e 1 = Some err1 \<and> \<not> doneDuring e 1 \<and> ctxErrAt e 2
        \<longrightarrow> UploadXLSX e fileName data = (Inl ContextErr, [Put 1, Slept 500]))
     \<and> (\<not> ctxErrAt e 1 \<and> putObject e 1 = Some err1 \<and> \<not> doneDuring e 1
          \<and> \<not> ctxErrAt e 2 \<and> putObject e 2 = Some err2 \<and> doneDuring e 2
        \<longrightarrow> UploadXLSX e fileName data = (Inl ContextErr, [Put 1, Slept 500, Put 2]))
     \<and> (\<not> ctxErrAt e 1 \<and> putObject e 1 = Some err1 \<and> \<not> doneDuring e 1
          \<and> \<not> ctxErrAt e 2 \<and> putObject e 2 = Some err2 \<and> \<not> doneDuring e 2
          \<and> ctxErrAt e 3
        \<longrightarrow> UploadXLSX e fileName data
              = (Inl ContextErr, [Put 1, Slept 500, Put 2, Slept 1000]))"
proof -
  have u: "UploadXLSX e fileName data = uploadLoop e (s3_prefix e @ fileName) 1 500 None"
    using raw by (simp add: UploadXLSX_def)
  have count: "putCount (snd (UploadXLSX e fileName data)) \<le> 3"
    unfolding u by (rule putCount_uploadLoop_1)
  show ?thesis
    by (intro conjI impI count)
       (simp_all del: One_nat_def add: u uploadLoop_1 uploadLoop_2 uploadLoop_3)
qed

theorem upload_retries_three_times_witness:
  "UploadXLSX (demoS3 (\<lambda>k. if k < 3 then Some (External ''timeout'') else None)
                 (\<lambda>k. False) (\<lambda>k. False)) ''debts.xlsx'' ''data''
     = (Inr ''exports/debts.xlsx'', [Put 1, Slept 500, Put 2, Slept 1000, Put 3])
   \<and> UploadXLSX (demoS3 (\<lambda>k. Some (External ''timeout'')) (\<lambda>k. False) (\<lambda>k. False))
        ''debts.xlsx'' ''data''
     = (Inl (PutFailed ''exports/debts.xlsx'' 3 (Some (External ''timeout''))),
        [Put 1, Slept 500, Put 2, Slept 1000, Put 3])
   \<and> UploadXLSX (demoS3 (\<lambda>k. Some (External ''timeout'')) (\<lambda>k. k = 2) (\<lambda>k. False))
        ''debts.xlsx'' ''data''
     = (Inl ContextErr, [Put 1, Slept 500])
   \<and> UploadXLSX (demoS3 (\<lambda>k. Some (External ''timeout'')) (\<lambda>k. False) (\<lambda>k. k = 1))
        ''debts.xlsx'' ''data''
     = (Inl ContextErr, [Put 1])
   \<and> putCount (snd (UploadXLSX (demoS3 (\<lambda>k. Some (External ''timeout'')) (\<lambda>k. False)
                                   (\<lambda>k. False)) ''debts.xlsx'' ''data'')) \<le> 3"
proof -
  have a: "UploadXLSX (demoS3 (\<lambda>k. if k < 3 then Some (External ''timeout'') else None)
                 (\<lambda>k. False) (\<lambda>k. False)) ''debts.xlsx'' ''data''
     = (Inr ''exports/debts.xlsx'', [Put 1, Slept 500, Put 2, Slept 1000, Put 3])"
    using upload_retries_three_times [where fileName = "''debts.xlsx''" and data = "''data''"
        and e = "demoS3 (\<lambda>k. if k < 3 then Some (External ''timeout'') else None)
                 (\<lambda>k. False) (\<lambda>k. False)"
        and ?err1.0 = "External ''timeout''" and ?err2.0 = "External ''timeout''"]
    by (simp add: demoS3_def)
  have b: "UploadXLSX (demoS3 (\<lambda>k. Some (External ''timeout'')) (\<lambda>k. False) (\<lambda>k. False))
        ''debts.xlsx'' ''data''
     = (Inl (PutFailed ''exports/debts.xlsx'' 3 (Some (External ''timeout''))),
        [Put 1, Slept 500, Put 2, Slept 1000, Put 3])
     \<and> putCount (snd (UploadXLSX (demoS3 (\<lambda>k. Some (External ''timeout'')) (\<lambda>k. False)
                                   (\<lambda>k. False)) ''debts.xlsx'' ''data'')) \<le> 3"
    using upload_retries_three_times [where fileName = "''debts.xlsx''" and data = "''data''"
        and e = "demoS3 (\<lambda>k. Some (External ''timeout'')) (\<lambda>k. False) (\<lambda>k. False)"
        and ?err1.0 = "External ''timeout''" and ?err2.0 = "External ''timeout''"
        and ?err3.0 = "External ''timeout''"]
    by (simp add: demoS3_def putCount_def)
  have c: "UploadXLSX (demoS3 (\<lambda>k. Some (External ''timeout'')) (\<lambda>k. k = 2) (\<lambda>k. False))
        ''debts.xlsx'' ''data''
     = (Inl ContextErr, [Put 1, Slept 500])"
    using upload_retries_three_times [where fileName = "''debts.xlsx''" and data = "''data''"
        and e = "demoS3 (\<lambda>k. Some (External ''timeout'')) (\<lambda>k. k = 2) (\<lambda>k. False)"
        and ?err1.0 = "External ''timeout''"]
    by (simp add: demoS3_def)
  have d: "UploadXLSX (demoS3 (\<lambda>k. Some (External ''timeout'')) (\<lambda>k. False) (\<lambda>k. k = 1))
        ''debts.xlsx'' ''data''
     = (Inl ContextErr, [Put 1])"
    using upload_retries_three_times [where fileName = "''debts.xlsx''" and data = "''data''"
        and e = "demoS3 (\<lambda>k. Some (External ''timeout'')) (\<lambda>k. False) (\<lambda>k. k = 1)"
        and ?err1.0 = "External ''timeout''"]
    by (simp add: demoS3_def)
  show ?thesis using a b c d by blast
qed

end
